theory Spec2Isabelle
  imports Main "HOL-Library.Word"
begin

section \<open>Token client: amounts, account layouts and instruction payloads\<close>

text \<open>
  A shallow embedding of \<^verbatim>\<open>src/client/token.js\<close>. A Buffer is a list of bytes.
  A bn.js number is signed-magnitude; \<^verbatim>\<open>toArray\<close> serialises the magnitude only, and
  the amounts of the token program are unsigned, so an amount is modelled by its magnitude,
  a natural number. A \<^verbatim>\<open>PublicKey\<close> wraps a bn.js number and compares by that
  number (\<^verbatim>\<open>equals\<close>), so a public key is modelled by its numeric value.
\<close>

type_synonym byte = "8 word"
type_synonym buffer = "byte list"
type_synonym TokenAmount = nat
type_synonym PublicKey = nat

text \<open>Every way a call of the client can throw.\<close>

datatype error =
    AssertionError
  | RangeError
  | TypeError
  | InvalidPublicKeyInput
  | InvalidTokenOwner
  | InvalidTokenAccountOwner
  | InvalidTokenAccountData
  | InvalidTokenAccountToken
  | AccountOwnerMismatch
  | RpcError

subsection \<open>bn.js: byte arrays and hexadecimal strings\<close>

text \<open>
  The loop of \<^verbatim>\<open>BN.toArrayLike\<close>: while the number is not zero, take its low
  byte (\<^verbatim>\<open>andln(0xff)\<close>) and shift it right by eight bits (\<^verbatim>\<open>iushrn(8)\<close>).
  The bytes come out least significant first.
\<close>

fun bn_bytes :: "nat \<Rightarrow> buffer" where
  "bn_bytes q = (if q = 0 then [] else word_of_nat (q mod 256) # bn_bytes (q div 256))"

definition byteLength :: "nat \<Rightarrow> nat" where
  "byteLength v = length (bn_bytes v)"

text \<open>
  \<^verbatim>\<open>BN.toArray()\<close> with no argument: big-endian, \<^verbatim>\<open>max(1, byteLength)\<close> bytes,
  the leading ones zero (zero is the one-byte array \<^verbatim>\<open>[0]\<close>).
\<close>

definition toArray :: "nat \<Rightarrow> buffer" where
  "toArray v =
     (let reqLength = max 1 (byteLength v)
      in replicate (reqLength - byteLength v) 0 @ rev (bn_bytes v))"

text \<open>\<^verbatim>\<open>new BN(bytes)\<close>: the bytes read as a big-endian number (the empty array is 0).\<close>

definition BN_of_bytes :: "buffer \<Rightarrow> nat" where
  "BN_of_bytes bs = foldl (\<lambda>acc b. acc * 256 + unat b) 0 bs"

text \<open>\<^verbatim>\<open>Number.prototype.toString(16)\<close> on a non-negative integer.\<close>

definition hex_digit :: "nat \<Rightarrow> char" where
  "hex_digit d = ''0123456789abcdef'' ! d"

fun toString16 :: "nat \<Rightarrow> string" where
  "toString16 n = (if n < 16 then [hex_digit n] else toString16 (n div 16) @ [hex_digit (n mod 16)])"

text \<open>
  One character of \<^verbatim>\<open>BN._parseHex\<close>: \<^verbatim>\<open>c = charCode - 48\<close>; the letters a-f and
  A-F are 10 to 15, anything else contributes its low four bits.
\<close>

definition hex_value :: "char \<Rightarrow> nat" where
  "hex_value ch =
     (let c = (of_char ch :: nat) - 48
      in if 49 \<le> c \<and> c \<le> 54 then c - 49 + 10
         else if 17 \<le> c \<and> c \<le> 22 then c - 17 + 10
         else c mod 16)"

text \<open>\<^verbatim>\<open>new BN(str, 16)\<close> on a string of hexadecimal digits.\<close>

definition BN_of_hex :: "string \<Rightarrow> nat" where
  "BN_of_hex s = foldl (\<lambda>acc ch. acc * 16 + hex_value ch) 0 s"

subsection \<open>Node.js Buffer: allocation and copy\<close>

text \<open>\<^verbatim>\<open>Buffer.alloc(n)\<close>: \<open>n\<close> zero bytes.\<close>

definition alloc :: "nat \<Rightarrow> buffer" where
  "alloc n = replicate n 0"

text \<open>\<^verbatim>\<open>buf.copy(target)\<close>: the bytes of \<open>buf\<close> over the start of \<open>target\<close>.\<close>

definition copy :: "buffer \<Rightarrow> buffer \<Rightarrow> buffer" where
  "copy b target = take (length target) b @ drop (length b) target"

subsection \<open>TokenAmount\<close>

text \<open>
  \<^verbatim>\<open>TokenAmount.toBuffer\<close>: the big-endian array reversed; returned as it is when it
  has eight bytes, refused by the assertion when it has more, and otherwise copied over
  eight zero bytes.
\<close>

definition toBuffer :: "TokenAmount \<Rightarrow> error + buffer" where
  "toBuffer v =
     (let a = rev (toArray v);
          b = a
      in if length b = 8 then Inr b
         else if \<not> length b < 8 then Inl AssertionError
         else
           (let zeroPad = alloc 8
            in Inr (copy b zeroPad)))"

text \<open>\<^verbatim>\<open>`00${i.toString(16)}`.slice(-2)\<close>: the last two characters.\<close>

definition hex2 :: "byte \<Rightarrow> string" where
  "hex2 i = (let s = ''00'' @ toString16 (unat i) in drop (length s - 2) s)"

text \<open>
  \<^verbatim>\<open>TokenAmount.fromBuffer\<close>: the assertion on the length, then the bytes reversed,
  each written as two hexadecimal digits, joined and parsed in base 16. The result is
  built with \<^verbatim>\<open>new BN\<close>; the model returns its value.
\<close>

definition fromBuffer :: "buffer \<Rightarrow> error + TokenAmount" where
  "fromBuffer buffer =
     (if length buffer \<noteq> 8 then Inl AssertionError
      else Inr (BN_of_hex (concat (map hex2 (rev buffer)))))"

subsection \<open>Node.js Buffer: slices, reads and writes\<close>

text \<open>\<^verbatim>\<open>buf.slice(start, end)\<close>: both ends are clamped to the buffer, it never throws.\<close>

definition slice_buffer :: "buffer \<Rightarrow> nat \<Rightarrow> nat \<Rightarrow> buffer" where
  "slice_buffer b start end = take (end - start) (drop start b)"

text \<open>The bytes of a little-endian number, and the number of little-endian bytes.\<close>

definition le_bytes :: "nat \<Rightarrow> nat \<Rightarrow> buffer" where
  "le_bytes n v = map (\<lambda>i. word_of_nat (v div 256 ^ i mod 256)) [0..<n]"

definition le_value :: "buffer \<Rightarrow> nat" where
  "le_value bs = foldr (\<lambda>x acc. unat x + 256 * acc) bs 0"

text \<open>
  \<^verbatim>\<open>readUIntLE(offset, n)\<close> and \<^verbatim>\<open>writeUIntLE(value, offset, n)\<close>: a RangeError when
  the \<open>n\<close> bytes do not lie inside the buffer, or the value does not fit them.
\<close>

definition readUIntLE :: "buffer \<Rightarrow> nat \<Rightarrow> nat \<Rightarrow> error + nat" where
  "readUIntLE b offset n =
     (if offset + n \<le> length b then Inr (le_value (slice_buffer b offset (offset + n)))
      else Inl RangeError)"

definition write_at :: "buffer \<Rightarrow> nat \<Rightarrow> buffer \<Rightarrow> buffer" where
  "write_at b offset bs = take offset b @ bs @ drop (offset + length bs) b"

definition writeUIntLE :: "buffer \<Rightarrow> nat \<Rightarrow> nat \<Rightarrow> nat \<Rightarrow> error + buffer" where
  "writeUIntLE b v offset n =
     (if offset + n \<le> length b \<and> v < 256 ^ n then Inr (write_at b offset (le_bytes n v))
      else Inl RangeError)"

subsection \<open>buffer-layout: the fields of a struct\<close>

text \<open>
  The layouts the client uses: \<^verbatim>\<open>BufferLayout.u8\<close>, \<^verbatim>\<open>BufferLayout.nu64\<close> and
  \<^verbatim>\<open>BufferLayout.blob(n)\<close>. A decoded or encoded property is a JavaScript number or
  a Buffer.
\<close>

datatype layout = U8 | NU64 | Blob nat

datatype val = Num nat | Buf buffer

type_synonym struct = "(string \<times> layout) list"
type_synonym object = "(string \<times> val) list"

text \<open>
  Modelled from the spec: \<^verbatim>\<open>Layout.uint64\<close> and \<^verbatim>\<open>Layout.publicKey\<close> of
  \<^verbatim>\<open>src/client/layout.js\<close>, which is not among the sources. The spec gives their
  widths: an amount is an 8-byte field, a key a 32-byte field, both raw bytes.
\<close>

definition Layout_uint64 :: layout where
  "Layout_uint64 = Blob 8"

definition Layout_publicKey :: layout where
  "Layout_publicKey = Blob 32"

fun span :: "layout \<Rightarrow> nat" where
  "span U8 = 1"
| "span NU64 = 8"
| "span (Blob n) = n"

text \<open>Sequencing of calls that can throw: the first error is the result.\<close>

fun ebind :: "error + 'a \<Rightarrow> ('a \<Rightarrow> error + 'b) \<Rightarrow> error + 'b" where
  "ebind (Inl e) f = Inl e"
| "ebind (Inr x) f = f x"

text \<open>
  \<^verbatim>\<open>layout.decode(b, offset)\<close>. \<open>U8\<close> reads one byte. \<open>NU64\<close> reads two 32-bit
  little-endian halves and returns \<open>hi32 * 2^32 + lo32\<close>; JavaScript rounds that to a
  double, which is zero exactly when both halves are zero, and the client only compares
  the result with 0, so the model keeps the integer. A blob is a slice of the buffer and
  is shorter than its width when the buffer ends early.
\<close>

fun decode_field :: "layout \<Rightarrow> buffer \<Rightarrow> nat \<Rightarrow> error + val" where
  "decode_field U8 b offset = ebind (readUIntLE b offset 1) (\<lambda>v. Inr (Num v))"
| "decode_field NU64 b offset =
     ebind (readUIntLE b offset 4) (\<lambda>lo32.
     ebind (readUIntLE b (offset + 4) 4) (\<lambda>hi32.
     Inr (Num (hi32 * 2 ^ 32 + lo32))))"
| "decode_field (Blob n) b offset = Inr (Buf (slice_buffer b offset (offset + n)))"

text \<open>
  \<^verbatim>\<open>Structure.decode\<close>: the fields in order, each at the offset the spans before it
  add up to.
\<close>

fun struct_decode :: "struct \<Rightarrow> buffer \<Rightarrow> nat \<Rightarrow> error + object" where
  "struct_decode [] b offset = Inr []"
| "struct_decode ((property, fd) # fields) b offset =
     ebind (decode_field fd b offset) (\<lambda>v.
     ebind (struct_decode fields b (offset + span fd)) (\<lambda>dest.
     Inr ((property, v) # dest)))"

text \<open>
  \<^verbatim>\<open>layout.encode(src, b, offset)\<close> returns the number of bytes written; the model
  returns the buffer written to as well. \<open>U8\<close> writes one byte. \<open>NU64\<close> splits the
  number into \<open>hi32 = floor(src / 2^32)\<close> and the rest and writes both with
  \<^verbatim>\<open>writeUInt32LE\<close>. A blob requires a Buffer of exactly its width (a TypeError
  otherwise) that fits the target (a RangeError otherwise).
\<close>

fun encode_field :: "layout \<Rightarrow> val \<Rightarrow> buffer \<Rightarrow> nat \<Rightarrow> error + buffer \<times> nat" where
  "encode_field U8 (Num v) b offset =
     ebind (writeUIntLE b v offset 1) (\<lambda>b'. Inr (b', 1))"
| "encode_field NU64 (Num v) b offset =
     (let hi32 = v div 2 ^ 32;
          lo32 = v - hi32 * 2 ^ 32
      in ebind (writeUIntLE b lo32 offset 4) (\<lambda>b'.
         ebind (writeUIntLE b' hi32 (offset + 4) 4) (\<lambda>b''.
         Inr (b'', 8))))"
| "encode_field (Blob n) (Buf src) b offset =
     (if n \<noteq> length src then Inl TypeError
      else if offset + n > length b then Inl RangeError
      else Inr (write_at b offset src, n))"
| "encode_field U8 (Buf src) b offset = Inl TypeError"
| "encode_field NU64 (Buf src) b offset = Inl TypeError"
| "encode_field (Blob n) (Num v) b offset = Inl TypeError"

text \<open>
  \<^verbatim>\<open>Structure.encode\<close>: every field whose property the source object has is encoded
  at its offset; the result is \<open>lastOffset + lastWrote - firstOffset\<close>.
\<close>

fun struct_encode_loop ::
  "struct \<Rightarrow> object \<Rightarrow> buffer \<Rightarrow> nat \<Rightarrow> nat \<Rightarrow> nat \<Rightarrow> error + buffer \<times> nat \<times> nat" where
  "struct_encode_loop [] src b offset lastOffset lastWrote = Inr (b, lastOffset, lastWrote)"
| "struct_encode_loop ((property, fd) # fields) src b offset lastOffset lastWrote =
     (case map_of src property of
        None \<Rightarrow> struct_encode_loop fields src b (offset + span fd) offset (span fd)
      | Some fv \<Rightarrow>
          ebind (encode_field fd fv b offset) (\<lambda>(b', wrote).
          struct_encode_loop fields src b' (offset + span fd) offset wrote))"

definition struct_encode :: "struct \<Rightarrow> object \<Rightarrow> buffer \<Rightarrow> error + buffer \<times> nat" where
  "struct_encode fields src b =
     ebind (struct_encode_loop fields src b 0 0 0) (\<lambda>(b', lastOffset, lastWrote).
     Inr (b', lastOffset + lastWrote - 0))"

text \<open>\<^verbatim>\<open>Structure.span\<close> of a struct of fixed-width fields.\<close>

definition struct_span :: "struct \<Rightarrow> nat" where
  "struct_span fields = sum_list (map (\<lambda>(property, fd). span fd) fields)"

text \<open>
  Reading a property of a decoded object as a number or as a Buffer. After a successful
  decode every property of the layout is there with its type; the model answers a
  TypeError for any other access.
\<close>

definition get_num :: "object \<Rightarrow> string \<Rightarrow> error + nat" where
  "get_num obj property =
     (case map_of obj property of Some (Num v) \<Rightarrow> Inr v | _ \<Rightarrow> Inl TypeError)"

definition get_buf :: "object \<Rightarrow> string \<Rightarrow> error + buffer" where
  "get_buf obj property =
     (case map_of obj property of Some (Buf b) \<Rightarrow> Inr b | _ \<Rightarrow> Inl TypeError)"

subsection \<open>web3.js: public keys, accounts, instructions\<close>

text \<open>
  \<^verbatim>\<open>new PublicKey(buffer)\<close>: the bytes as a big-endian number, refused when the number
  needs more than 32 bytes.
\<close>

definition new_PublicKey :: "buffer \<Rightarrow> error + PublicKey" where
  "new_PublicKey b =
     (if byteLength (BN_of_bytes b) > 32 then Inl InvalidPublicKeyInput
      else Inr (BN_of_bytes b))"

text \<open>What \<^verbatim>\<open>connection.getAccountInfo\<close> answers for an account.\<close>

record AccountInfo =
  owner :: PublicKey
  lamports :: nat
  data :: buffer
  executable :: bool

text \<open>
  The connection, as far as the client reads through it: the answer of the node to
  \<^verbatim>\<open>getAccountInfo\<close> for each public key, an error when the request fails.
\<close>

record Connection =
  getAccountInfo :: "PublicKey \<Rightarrow> error + AccountInfo"

record Account =
  publicKey :: PublicKey

record KeyMeta =
  pubkey :: PublicKey
  isSigner :: bool
  isWritable :: bool

record TransactionInstruction =
  keys :: "KeyMeta list"
  programId :: PublicKey
  data :: buffer

subsection \<open>Token\<close>

record TokenInfo =
  "supply" :: TokenAmount
  decimals :: nat

record TokenAccountInfo =
  token :: PublicKey
  owner :: PublicKey
  amount :: TokenAmount
  source :: "PublicKey option"
  originalAmount :: TokenAmount

definition TokenInfoLayout :: struct where
  "TokenInfoLayout = [(''state'', U8), (''supply'', Layout_uint64), (''decimals'', U8)]"

definition TokenAccountInfoLayout :: struct where
  "TokenAccountInfoLayout =
     [(''state'', U8),
      (''token'', Layout_publicKey),
      (''owner'', Layout_publicKey),
      (''amount'', Layout_uint64),
      (''sourceOption'', NU64),
      (''source'', Layout_publicKey),
      (''originalAmount'', Layout_uint64)]"

record Token =
  connection :: Connection
  token :: PublicKey
  programId :: PublicKey

text \<open>
  \<^verbatim>\<open>Token.tokenInfo\<close>: the account of the token itself, owned by the token program,
  decoded with \<open>TokenInfoLayout\<close>; its state must be 1.
\<close>

definition tokenInfo :: "Token \<Rightarrow> error + TokenInfo" where
  "tokenInfo this =
     ebind (getAccountInfo (connection this) (Token.token this)) (\<lambda>accountInfo.
     if AccountInfo.owner accountInfo \<noteq> Token.programId this then Inl InvalidTokenOwner
     else
       ebind (struct_decode TokenInfoLayout (AccountInfo.data accountInfo) 0) (\<lambda>tokenInfo.
       ebind (get_num tokenInfo ''state'') (\<lambda>state.
       if state \<noteq> 1 then Inl InvalidTokenAccountData
       else
         ebind (get_buf tokenInfo ''supply'') (\<lambda>supply_bytes.
         ebind (fromBuffer supply_bytes) (\<lambda>supply.
         ebind (get_num tokenInfo ''decimals'') (\<lambda>decimals.
         Inr \<lparr>supply = supply, decimals = decimals\<rparr>))))))"

text \<open>
  \<^verbatim>\<open>Token.accountInfo\<close>: the account must be owned by the token program and its
  state must be 2; the keys and the amount are converted; a \<open>sourceOption\<close> of 0 clears
  the source and makes the original amount \<^verbatim>\<open>new TokenAmount()\<close>, which is 0, anything
  else converts them; last, the token of the account must be the token of this object.
\<close>

definition accountInfo :: "Token \<Rightarrow> PublicKey \<Rightarrow> error + TokenAccountInfo" where
  "accountInfo this account =
     ebind (getAccountInfo (connection this) account) (\<lambda>accountInfo.
     if AccountInfo.owner accountInfo \<noteq> Token.programId this then Inl InvalidTokenAccountOwner
     else
       ebind (struct_decode TokenAccountInfoLayout (AccountInfo.data accountInfo) 0)
         (\<lambda>tokenAccountInfo.
       ebind (get_num tokenAccountInfo ''state'') (\<lambda>state.
       if state \<noteq> 2 then Inl InvalidTokenAccountData
       else
         ebind (ebind (get_buf tokenAccountInfo ''token'') new_PublicKey) (\<lambda>token.
         ebind (ebind (get_buf tokenAccountInfo ''owner'') new_PublicKey) (\<lambda>owner.
         ebind (ebind (get_buf tokenAccountInfo ''amount'') fromBuffer) (\<lambda>amount.
         ebind (get_num tokenAccountInfo ''sourceOption'') (\<lambda>sourceOption.
         ebind
           (if sourceOption = 0 then Inr (None, 0)
            else
              ebind (ebind (get_buf tokenAccountInfo ''source'') new_PublicKey) (\<lambda>source.
              ebind (ebind (get_buf tokenAccountInfo ''originalAmount'') fromBuffer)
                (\<lambda>originalAmount.
              Inr (Some source, originalAmount))))
           (\<lambda>(source, originalAmount).
         if token \<noteq> Token.token this then Inl InvalidTokenAccountToken
         else
           Inr \<lparr>TokenAccountInfo.token = token, TokenAccountInfo.owner = owner,
                amount = amount, source = source, originalAmount = originalAmount\<rparr>))))))))"

subsection \<open>Instructions\<close>

text \<open>
  An object the code types \<^verbatim>\<open>TokenAmount\<close> is an instance of the class, or the plain
  bn.js number that \<^verbatim>\<open>TokenAmount.fromBuffer\<close> builds with \<^verbatim>\<open>new BN(...)\<close> and that
  \<^verbatim>\<open>accountInfo\<close> and \<^verbatim>\<open>tokenInfo\<close> hand to the caller as \<open>amount\<close>,
  \<open>originalAmount\<close> (with a source) and \<open>supply\<close>. Both carry a magnitude; they differ
  in the \<^verbatim>\<open>toBuffer\<close> method a call reaches.
\<close>

datatype amount_object = TokenAmountObj TokenAmount | PlainBN nat

text \<open>
  \<^verbatim>\<open>BN.prototype.toBuffer()\<close> with no argument: \<^verbatim>\<open>toArrayLike(Buffer)\<close>, the
  big-endian bytes of \<^verbatim>\<open>toArray\<close>, neither reversed nor padded.
\<close>

definition BN_toBuffer :: "nat \<Rightarrow> buffer" where
  "BN_toBuffer v = toArray v"

text \<open>
  The call \<^verbatim>\<open>x.toBuffer()\<close>: an instance of TokenAmount runs the method of the class,
  a plain bn.js number the method of bn.js.
\<close>

fun toBuffer_method :: "amount_object \<Rightarrow> error + buffer" where
  "toBuffer_method (TokenAmountObj v) = toBuffer v"
| "toBuffer_method (PlainBN v) = Inr (BN_toBuffer v)"

text \<open>
  An amount argument is a JavaScript number or an object typed TokenAmount.
  \<^verbatim>\<open>new TokenAmount(amount)\<close> sends a number through the number constructor of bn.js,
  which asserts that it is below \<open>2^53\<close>, and makes an instance of the class; given a
  bn.js number of either kind, the constructor of bn.js returns that very object
  (\<^verbatim>\<open>if (BN.isBN(number)) return number\<close>), so a plain bn.js number stays one.
\<close>

datatype amount_arg = JsNumber nat | AmountObject amount_object

fun new_TokenAmount :: "amount_arg \<Rightarrow> error + amount_object" where
  "new_TokenAmount (JsNumber n) =
     (if n < 2 ^ 53 then Inr (TokenAmountObj n) else Inl AssertionError)"
| "new_TokenAmount (AmountObject x) = Inr x"

text \<open>
  The payload of \<^verbatim>\<open>Token.createNewToken\<close>: the struct encoded into 1024 zero bytes
  and cut to the encoded length.
\<close>

definition createNewToken_data :: "amount_object \<Rightarrow> nat \<Rightarrow> error + buffer" where
  "createNewToken_data = (\<lambda>supply decimals.
     (let dataLayout = [(''instruction'', U8), (''supply'', Layout_uint64), (''decimals'', NU64)];
          data = alloc 1024
      in ebind (toBuffer_method supply) (\<lambda>supply_bytes.
         ebind (struct_encode dataLayout
                  [(''instruction'', Num 0), (''supply'', Buf supply_bytes),
                   (''decimals'', Num decimals)] data) (\<lambda>(data, encodeLength).
         Inr (slice_buffer data 0 encodeLength)))))"

text \<open>The payload of \<^verbatim>\<open>Token.newAccount\<close>.\<close>

definition newAccount_data :: "error + buffer" where
  "newAccount_data =
     (let dataLayout = [(''instruction'', U8)];
          data = alloc (struct_span dataLayout)
      in ebind (struct_encode dataLayout [(''instruction'', Num 1)] data) (\<lambda>(data, wrote).
         Inr data))"

definition transferInstruction ::
  "Token \<Rightarrow> PublicKey \<Rightarrow> PublicKey \<Rightarrow> PublicKey \<Rightarrow> amount_arg \<Rightarrow> error + TransactionInstruction" where
  "transferInstruction this = (\<lambda>owner source destination amount.
     ebind (accountInfo this source) (\<lambda>accountInfo.
     if owner \<noteq> TokenAccountInfo.owner accountInfo then Inl AccountOwnerMismatch
     else
       (let dataLayout = [(''instruction'', U8), (''amount'', Layout_uint64)];
            data = alloc (struct_span dataLayout)
        in ebind (ebind (new_TokenAmount amount) toBuffer_method) (\<lambda>amount_bytes.
           ebind (struct_encode dataLayout
                    [(''instruction'', Num 2), (''amount'', Buf amount_bytes)] data)
             (\<lambda>(data, wrote).
           let keys =
                 [\<lparr>pubkey = owner, isSigner = True, isWritable = False\<rparr>,
                  \<lparr>pubkey = source, isSigner = False, isWritable = True\<rparr>,
                  \<lparr>pubkey = destination, isSigner = False, isWritable = True\<rparr>];
               keys =
                 (case TokenAccountInfo.source accountInfo of
                    None \<Rightarrow> keys
                  | Some s \<Rightarrow> keys @ [\<lparr>pubkey = s, isSigner = False, isWritable = True\<rparr>])
           in Inr \<lparr>keys = keys, TransactionInstruction.programId = Token.programId this,
                   TransactionInstruction.data = data\<rparr>)))))"

definition approveInstruction ::
  "Token \<Rightarrow> PublicKey \<Rightarrow> PublicKey \<Rightarrow> PublicKey \<Rightarrow> amount_arg \<Rightarrow> error + TransactionInstruction" where
  "approveInstruction this = (\<lambda>owner account delegate amount.
     (let dataLayout = [(''instruction'', U8), (''amount'', Layout_uint64)];
          data = alloc (struct_span dataLayout)
      in ebind (ebind (new_TokenAmount amount) toBuffer_method) (\<lambda>amount_bytes.
         ebind (struct_encode dataLayout
                  [(''instruction'', Num 3), (''amount'', Buf amount_bytes)] data)
           (\<lambda>(data, wrote).
         Inr \<lparr>keys =
                 [\<lparr>pubkey = owner, isSigner = True, isWritable = False\<rparr>,
                  \<lparr>pubkey = account, isSigner = False, isWritable = True\<rparr>,
                  \<lparr>pubkey = delegate, isSigner = False, isWritable = True\<rparr>],
               TransactionInstruction.programId = Token.programId this,
               TransactionInstruction.data = data\<rparr>))))"

definition revokeInstruction ::
  "Token \<Rightarrow> PublicKey \<Rightarrow> PublicKey \<Rightarrow> PublicKey \<Rightarrow> error + TransactionInstruction" where
  "revokeInstruction this = (\<lambda>owner account delegate.
     approveInstruction this owner account delegate (JsNumber 0))"

definition setOwnerInstruction ::
  "Token \<Rightarrow> PublicKey \<Rightarrow> PublicKey \<Rightarrow> PublicKey \<Rightarrow> error + TransactionInstruction" where
  "setOwnerInstruction this = (\<lambda>owner account newOwner.
     (let dataLayout = [(''instruction'', U8)];
          data = alloc (struct_span dataLayout)
      in ebind (struct_encode dataLayout [(''instruction'', Num 4)] data) (\<lambda>(data, wrote).
         Inr \<lparr>keys =
                 [\<lparr>pubkey = owner, isSigner = True, isWritable = False\<rparr>,
                  \<lparr>pubkey = account, isSigner = False, isWritable = True\<rparr>,
                  \<lparr>pubkey = newOwner, isSigner = False, isWritable = True\<rparr>],
               TransactionInstruction.programId = Token.programId this,
               TransactionInstruction.data = data\<rparr>)))"

text \<open>
  \<^verbatim>\<open>sendAndConfirmTransaction\<close> of \<^verbatim>\<open>src/client/util/send-and-confirm-transaction.js\<close>
  is not among the sources; \<open>approve\<close> and \<open>revoke\<close> take it as a parameter: from the
  title, the connection, the instructions of the transaction and the signers to an error
  or the signature.
\<close>

type_synonym signature = string
type_synonym sender =
  "string \<Rightarrow> Connection \<Rightarrow> TransactionInstruction list \<Rightarrow> Account list \<Rightarrow> error + signature"

definition approve ::
  "sender \<Rightarrow> Token \<Rightarrow> Account \<Rightarrow> PublicKey \<Rightarrow> PublicKey \<Rightarrow> amount_arg \<Rightarrow> error + unit" where
  "approve sendAndConfirmTransaction this = (\<lambda>owner account delegate amount.
     ebind (approveInstruction this (publicKey owner) account delegate amount) (\<lambda>instruction.
     ebind (sendAndConfirmTransaction ''approve'' (connection this) [instruction] [owner])
       (\<lambda>signature. Inr ())))"

definition revoke ::
  "sender \<Rightarrow> Token \<Rightarrow> Account \<Rightarrow> PublicKey \<Rightarrow> PublicKey \<Rightarrow> error + unit" where
  "revoke sendAndConfirmTransaction this = (\<lambda>owner account delegate.
     approve sendAndConfirmTransaction this owner account delegate (JsNumber 0))"

subsection \<open>The transaction confirmation loop\<close>

text \<open>
  Modelled from the spec: the confirmation loop (\<^verbatim>\<open>sendAndConfirmTransaction\<close>), whose
  source is not among the sources. The spec's state machine is
  \<open>Submitting -> Pending -> {Confirmed, Failed, TimedOut}\<close>. Time is what a clock reads:
  \<open>clock i\<close> is the time elapsed when poll \<open>i\<close> has been answered.
\<close>

datatype status = StatusOk | StatusErr string

datatype failure = Transport | OnChain string

datatype outcome = Confirmed signature | Failed failure | TimedOut

text \<open>
  Modelled from the spec: \<open>Submitting\<close> sends the transaction; a transport error
  (\<open>None\<close>) is retried a bounded number of times before giving up. \<open>send k\<close> is the
  answer to attempt \<open>k\<close>.
\<close>

fun submitting :: "(nat \<Rightarrow> signature option) \<Rightarrow> nat \<Rightarrow> nat \<Rightarrow> signature option" where
  "submitting send k 0 = send k"
| "submitting send k (Suc retries) =
     (case send k of Some s \<Rightarrow> Some s | None \<Rightarrow> submitting send (Suc k) retries)"

text \<open>
  Modelled from the spec: \<open>Pending\<close> queries the status by signature again and again
  until a terminal status is seen or the elapsed time is over the budget; \<open>query i\<close> is
  the answer to poll \<open>i\<close>, \<open>None\<close> for a null status. The loop need not end: a clock
  that never passes the budget and a status that stays null give no outcome (\<open>None\<close>).
\<close>

partial_function (option) pending ::
  "(nat \<Rightarrow> status option) \<Rightarrow> (nat \<Rightarrow> nat) \<Rightarrow> nat \<Rightarrow> signature \<Rightarrow> nat \<Rightarrow> outcome option" where
  "pending query clock budget s i =
     (case query i of
        Some StatusOk \<Rightarrow> Some (Confirmed s)
      | Some (StatusErr reason) \<Rightarrow> Some (Failed (OnChain reason))
      | None \<Rightarrow>
          if budget < clock i then Some TimedOut
          else pending query clock budget s (Suc i))"

text \<open>Modelled from the spec: the whole operation, from submission to its outcome.\<close>

definition sendAndConfirm ::
  "(nat \<Rightarrow> signature option) \<Rightarrow> nat \<Rightarrow> (nat \<Rightarrow> status option) \<Rightarrow> (nat \<Rightarrow> nat) \<Rightarrow> nat \<Rightarrow>
   outcome option" where
  "sendAndConfirm send retries query clock budget =
     (case submitting send 0 retries of
        None \<Rightarrow> Some (Failed Transport)
      | Some s \<Rightarrow> pending query clock budget s 0)"

subsection \<open>The vocabulary of the specification\<close>

text \<open>The instruction tags, a closed enumeration.\<close>

datatype instruction_kind = NewToken | NewTokenAccount | Transfer | Approve | SetOwner

fun instruction_tag :: "instruction_kind \<Rightarrow> byte" where
  "instruction_tag NewToken = 0"
| "instruction_tag NewTokenAccount = 1"
| "instruction_tag Transfer = 2"
| "instruction_tag Approve = 3"
| "instruction_tag SetOwner = 4"

text \<open>
  The errors the spec calls validation errors: a state sentinel mismatch, an owner-program
  mismatch, a token-identity mismatch, or a malformed buffer length (a read past the end
  of the buffer, an amount that is not 8 bytes).
\<close>

fun validation_error :: "error \<Rightarrow> bool" where
  "validation_error InvalidTokenOwner = True"
| "validation_error InvalidTokenAccountOwner = True"
| "validation_error InvalidTokenAccountData = True"
| "validation_error InvalidTokenAccountToken = True"
| "validation_error RangeError = True"
| "validation_error AssertionError = True"
| "validation_error e = False"

text \<open>
  The fields of a token buffer at their offsets: after the state byte, the supply (8 bytes
  from offset 1) and the decimals (the byte at offset 9).
  The fields of a token account buffer at their offsets: after the state byte, the token
  key (32 bytes from offset 1), the owner key (32 bytes from offset 33), the amount
  (8 bytes from offset 65), the \<open>sourceOption\<close> integer (8 bytes from offset 73), the
  source key (32 bytes from offset 81) and the original amount (8 bytes from offset 113).
\<close>

definition supply_field :: "buffer \<Rightarrow> buffer" where
  "supply_field d = slice_buffer d 1 9"

definition decimals_field :: "buffer \<Rightarrow> nat" where
  "decimals_field d = le_value (slice_buffer d 9 10)"

definition token_field :: "buffer \<Rightarrow> buffer" where
  "token_field d = slice_buffer d 1 33"

definition owner_field :: "buffer \<Rightarrow> buffer" where
  "owner_field d = slice_buffer d 33 65"

definition amount_field :: "buffer \<Rightarrow> buffer" where
  "amount_field d = slice_buffer d 65 73"

definition sourceOption_field :: "buffer \<Rightarrow> nat" where
  "sourceOption_field d = le_value (slice_buffer d 73 81)"

definition source_field :: "buffer \<Rightarrow> buffer" where
  "source_field d = slice_buffer d 81 113"

definition originalAmount_field :: "buffer \<Rightarrow> buffer" where
  "originalAmount_field d = slice_buffer d 113 121"

subsection \<open>Example accounts\<close>

text \<open>
  A token with public key 9 under the token program 7, and four accounts of the node:
  account 100 holds 10000 tokens and has no source (its trailing bytes are not zero),
  account 101 is a delegate of 456 tokens, account 102 belongs to another token, and
  account 103 is not initialised.
\<close>

definition example_token_key :: buffer where
  "example_token_key = replicate 31 0 @ [9]"

definition example_owner_key :: buffer where
  "example_owner_key = replicate 31 0 @ [3]"

definition example_source_key :: buffer where
  "example_source_key = replicate 31 0 @ [5]"

definition example_token_data :: buffer where
  "example_token_data = [1, 16, 39, 0, 0, 0, 0, 0, 0, 2]"

definition example_account_data :: buffer where
  "example_account_data =
     [2] @ example_token_key @ example_owner_key @ [16, 39, 0, 0, 0, 0, 0, 0] @
     [0, 0, 0, 0, 0, 0, 0, 0] @ example_source_key @ [200, 1, 0, 0, 0, 0, 0, 0]"

definition example_delegate_data :: buffer where
  "example_delegate_data =
     [2] @ example_token_key @ example_owner_key @ [200, 1, 0, 0, 0, 0, 0, 0] @
     [1, 0, 0, 0, 0, 0, 0, 0] @ example_source_key @ [200, 1, 0, 0, 0, 0, 0, 0]"

definition example_foreign_data :: buffer where
  "example_foreign_data =
     [2] @ example_source_key @ example_owner_key @ [200, 1, 0, 0, 0, 0, 0, 0] @
     [1, 0, 0, 0, 0, 0, 0, 0] @ example_source_key @ [200, 1, 0, 0, 0, 0, 0, 0]"

definition example_uninitialized_data :: buffer where
  "example_uninitialized_data = replicate 121 0"

definition example_info :: "buffer \<Rightarrow> AccountInfo" where
  "example_info d = \<lparr>AccountInfo.owner = 7, lamports = 1, AccountInfo.data = d, executable = False\<rparr>"

definition example_connection :: Connection where
  "example_connection =
     \<lparr>getAccountInfo = (\<lambda>k.
        if k = 9 then Inr (example_info example_token_data)
        else if k = 100 then Inr (example_info example_account_data)
        else if k = 101 then Inr (example_info example_delegate_data)
        else if k = 102 then Inr (example_info example_foreign_data)
        else if k = 103 then Inr (example_info example_uninitialized_data)
        else Inl RpcError)\<rparr>"

definition example_token :: Token where
  "example_token = \<lparr>connection = example_connection, Token.token = 9, Token.programId = 7\<rparr>"

section \<open>Amounts on the wire\<close>

subsection \<open>Bytes and hexadecimal digits\<close>

declare bn_bytes.simps [simp del] toString16.simps [simp del]

lemma hex_value_digit: "d < 16 \<Longrightarrow> hex_value (hex_digit d) = d"
proof -
  assume "d < 16"
  then have "d = 0 \<or> d = 1 \<or> d = 2 \<or> d = 3 \<or> d = 4 \<or> d = 5 \<or> d = 6 \<or> d = 7 \<or>
     d = 8 \<or> d = 9 \<or> d = 10 \<or> d = 11 \<or> d = 12 \<or> d = 13 \<or> d = 14 \<or> d = 15"
    by arith
  then show ?thesis
    by (elim disjE) (simp_all add: hex_value_def hex_digit_def)
qed

lemma toString16_byte:
  "n < 256 \<Longrightarrow> toString16 n = (if n < 16 then [hex_digit n] else [hex_digit (n div 16), hex_digit (n mod 16)])"
  by (subst toString16.simps, subst toString16.simps) auto

lemma hex2_eq: "hex2 x = [hex_digit (unat x div 16), hex_digit (unat x mod 16)]"
proof -
  have "unat x < 256" using unsigned_less [of x] by simp
  then show ?thesis
    by (auto simp: hex2_def Let_def toString16_byte hex_digit_def)
qed

lemma BN_of_hex_step:
  "foldl (\<lambda>acc ch. acc * 16 + hex_value ch) acc (hex2 x) = acc * 256 + unat x"
proof -
  have "unat x < 256" using unsigned_less [of x] by simp
  then have "unat x div 16 < 16" "unat x mod 16 < 16" by auto
  then have "foldl (\<lambda>acc ch. acc * 16 + hex_value ch) acc (hex2 x) =
     (acc * 16 + unat x div 16) * 16 + unat x mod 16"
    by (simp add: hex2_eq hex_value_digit)
  also have "\<dots> = acc * 256 + unat x" by arith
  finally show ?thesis .
qed

lemma BN_of_hex_bytes_acc:
  "foldl (\<lambda>acc ch. acc * 16 + hex_value ch) acc (concat (map hex2 bs)) =
   foldl (\<lambda>acc b. acc * 256 + unat b) acc bs"
  by (induction bs arbitrary: acc) (simp_all add: BN_of_hex_step)

lemma BN_of_hex_bytes: "BN_of_hex (concat (map hex2 bs)) = BN_of_bytes bs"
  by (simp add: BN_of_hex_def BN_of_bytes_def BN_of_hex_bytes_acc)

lemma BN_of_bytes_snoc: "BN_of_bytes (bs @ [b]) = BN_of_bytes bs * 256 + unat b"
  by (simp add: BN_of_bytes_def)

lemma BN_of_bytes_rev: "BN_of_bytes (rev bs) = (\<Sum>i<length bs. unat (bs ! i) * 256 ^ i)"
proof (induction bs)
  case Nil
  then show ?case by (simp add: BN_of_bytes_def)
next
  case (Cons b bs)
  have "(\<Sum>i<length (b # bs). unat ((b # bs) ! i) * 256 ^ i) =
        unat b + (\<Sum>i<length bs. unat (bs ! i) * 256 ^ Suc i)"
    by (simp add: sum.lessThan_Suc_shift del: sum.lessThan_Suc)
  also have "\<dots> = unat b + 256 * (\<Sum>i<length bs. unat (bs ! i) * 256 ^ i)"
    by (simp add: sum_distrib_left mult.assoc mult.left_commute)
  finally show ?case using Cons by (simp add: BN_of_bytes_snoc)
qed

lemma bn_bytes_length_le: "length (bn_bytes v) \<le> n \<longleftrightarrow> v < 256 ^ n"
proof (induction n arbitrary: v)
  case 0
  then show ?case by (subst bn_bytes.simps) simp
next
  case (Suc n)
  show ?case
  proof (cases "v = 0")
    case True
    then show ?thesis by (subst bn_bytes.simps) simp
  next
    case False
    have "v div 256 < 256 ^ n \<longleftrightarrow> v < 256 ^ Suc n"
      by (simp add: less_mult_imp_div_less div_less_iff_less_mult mult.commute)
    with False Suc [of "v div 256"] show ?thesis
      by (subst bn_bytes.simps) simp
  qed
qed

lemma bn_bytes_nth:
  "i < length (bn_bytes v) \<Longrightarrow> bn_bytes v ! i = word_of_nat (v div 256 ^ i mod 256)"
proof (induction i arbitrary: v)
  case 0
  then show ?case by (subst bn_bytes.simps, subst (asm) bn_bytes.simps) (auto split: if_splits)
next
  case (Suc i)
  from Suc.prems have nz: "v \<noteq> 0" by (subst (asm) bn_bytes.simps) (auto split: if_splits)
  then have eq: "bn_bytes v = word_of_nat (v mod 256) # bn_bytes (v div 256)"
    by (subst bn_bytes.simps) simp
  with Suc.prems have "i < length (bn_bytes (v div 256))" by simp
  from Suc.IH [OF this] show ?case
    by (simp add: eq div_mult2_eq)
qed

lemma bn_bytes_beyond:
  "length (bn_bytes v) \<le> i \<Longrightarrow> v div 256 ^ i = 0"
  by (simp add: bn_bytes_length_le)


subsection \<open>Encoding and decoding an amount\<close>

lemma toArray_rev: "rev (toArray v) = bn_bytes v @ replicate (max 1 (byteLength v) - byteLength v) 0"
  by (simp add: toArray_def Let_def)

lemma le_digits_nth:
  assumes "v < 256 ^ n" "i < n"
  shows "(bn_bytes v @ replicate (n - length (bn_bytes v)) 0) ! i = word_of_nat (v div 256 ^ i mod 256)"
proof (cases "i < length (bn_bytes v)")
  case True
  then show ?thesis by (simp add: nth_append bn_bytes_nth)
next
  case False
  then have "v div 256 ^ i = 0" by (simp add: bn_bytes_beyond)
  moreover from assms have "length (bn_bytes v) \<le> n" by (simp add: bn_bytes_length_le)
  ultimately show ?thesis using False assms by (simp add: nth_append)
qed

lemma toBuffer_small:
  assumes "v < 2 ^ 64"
  shows "toBuffer v = Inr (bn_bytes v @ replicate (8 - length (bn_bytes v)) 0)"
proof -
  from assms have "v < 256 ^ 8" by simp
  then have len: "length (bn_bytes v) \<le> 8" using bn_bytes_length_le [of v 8] by blast
  show ?thesis
  proof (cases "length (bn_bytes v) = 0")
    case True
    then show ?thesis
      by (simp add: toBuffer_def toArray_rev byteLength_def copy_def alloc_def Let_def
          numeral_eq_Suc)
  next
    case False
    then have "max 1 (length (bn_bytes v)) - length (bn_bytes v) = 0" by (cases "bn_bytes v") simp_all
    with len show ?thesis
      by (simp add: toBuffer_def toArray_rev byteLength_def copy_def alloc_def Let_def)
  qed
qed

lemma toBuffer_large:
  assumes "2 ^ 64 \<le> v"
  shows "toBuffer v = Inl AssertionError"
proof -
  from assms have "\<not> v < 256 ^ 8" by simp
  then have "\<not> length (bn_bytes v) \<le> 8" using bn_bytes_length_le [of v 8] by blast
  then show ?thesis
    by (simp add: toBuffer_def toArray_rev byteLength_def Let_def)
qed

lemma digits_sum: "(\<Sum>i<n. (v div 256 ^ i mod 256) * 256 ^ i) = v mod 256 ^ n" for v :: nat
proof (induction n)
  case 0
  then show ?case by simp
next
  case (Suc n)
  have "v mod 256 ^ Suc n = 256 ^ n * (v div 256 ^ n mod 256) + v mod 256 ^ n"
    using mod_mult2_eq [of v "256 ^ n" 256] by (simp add: mult.commute)
  with Suc show ?case by (simp add: mult.commute)
qed

lemma fromBuffer_value:
  "length b = 8 \<Longrightarrow> fromBuffer b = Inr (\<Sum>i<8. unat (b ! i) * 256 ^ i)"
  using BN_of_bytes_rev [of b] by (simp add: fromBuffer_def BN_of_hex_bytes)

text \<open>
  C1. Round trip: for every amount \<open>v\<close> below \<open>2^64\<close>, \<open>toBuffer\<close> returns a buffer and
  \<open>fromBuffer\<close> of that buffer returns \<open>v\<close>.
\<close>

theorem toBuffer_fromBuffer_roundtrip:
  assumes "v < 2 ^ 64"
  shows "\<exists>b. toBuffer v = Inr b \<and> fromBuffer b = Inr v"
proof -
  let ?b = "bn_bytes v @ replicate (8 - length (bn_bytes v)) 0"
  from assms have v: "v < 256 ^ 8" by simp
  then have "length (bn_bytes v) \<le> 8" using bn_bytes_length_le [of v 8] by blast
  then have len: "length ?b = 8" by simp
  have "(\<Sum>i<8. unat (?b ! i) * 256 ^ i) = (\<Sum>i<8. (v div 256 ^ i mod 256) * 256 ^ i)"
  proof (rule sum.cong)
    fix i assume "i \<in> {..<8::nat}"
    then have "i < 8" by simp
    from le_digits_nth [OF v this]
    show "unat (?b ! i) * 256 ^ i = (v div 256 ^ i mod 256) * 256 ^ i"
      by (simp add: unat_of_nat)
  qed simp
  also have "\<dots> = v" using v by (simp only: digits_sum mod_less)
  finally have "fromBuffer ?b = Inr v" using fromBuffer_value [OF len] by simp
  with toBuffer_small [OF assms] show ?thesis by blast
qed

theorem toBuffer_fromBuffer_roundtrip_witness:
  "(10000 :: nat) < 2 ^ 64 \<and> (\<exists>b. toBuffer 10000 = Inr b \<and> fromBuffer b = Inr 10000)"
  using toBuffer_fromBuffer_roundtrip [of 10000] by simp

text \<open>
  C2. For an amount \<open>v\<close> below \<open>2^64\<close>, \<open>toBuffer\<close> returns exactly 8 bytes, byte \<open>i\<close>
  being digit \<open>i\<close> of \<open>v\<close> in base 256 (the big-endian magnitude reversed, zeros
  behind it); for \<open>v\<close> of \<open>2^64\<close> or more it fails on its assertion and truncates
  nothing.
\<close>

theorem toBuffer_eight_bytes_or_fails:
  "(v < 2 ^ 64 \<longrightarrow>
      (\<exists>b. toBuffer v = Inr b \<and> length b = 8 \<and>
           (\<forall>i<8. b ! i = word_of_nat (v div 256 ^ i mod 256)))) \<and>
   (2 ^ 64 \<le> v \<longrightarrow> toBuffer v = Inl AssertionError)"
proof (intro conjI impI)
  assume small: "v < 2 ^ 64"
  then have v: "v < 256 ^ 8" by simp
  then have "length (bn_bytes v) \<le> 8" using bn_bytes_length_le [of v 8] by blast
  then have "length (bn_bytes v @ replicate (8 - length (bn_bytes v)) 0) = 8" by simp
  with toBuffer_small [OF small] le_digits_nth [OF v]
  show "\<exists>b. toBuffer v = Inr b \<and> length b = 8 \<and>
           (\<forall>i<8. b ! i = word_of_nat (v div 256 ^ i mod 256))"
    by blast
next
  assume "2 ^ 64 \<le> v"
  then show "toBuffer v = Inl AssertionError" by (rule toBuffer_large)
qed

theorem toBuffer_eight_bytes_or_fails_witness:
  "(\<exists>b. toBuffer 10000 = Inr b \<and> length b = 8 \<and> b ! 0 = 16 \<and> b ! 1 = 39 \<and> b ! 2 = 0) \<and>
   toBuffer (2 ^ 64) = Inl AssertionError"
proof -
  from toBuffer_eight_bytes_or_fails [of 10000]
  obtain b where b: "toBuffer 10000 = Inr b" "length b = 8"
    "\<forall>i<8. b ! i = word_of_nat (10000 div 256 ^ i mod 256)"
    by auto
  from b(3) have "b ! 0 = 16" "b ! 1 = 39" "b ! 2 = 0" by simp_all
  with b(1,2) toBuffer_eight_bytes_or_fails [of "2 ^ 64"] show ?thesis by simp
qed

text \<open>
  C7. \<open>fromBuffer\<close> fails on its assertion for every buffer that is not exactly 8 bytes
  long, and for every buffer of 8 bytes it returns the number the bytes are in
  little-endian order.
\<close>

theorem fromBuffer_eight_bytes_only:
  "(length b \<noteq> 8 \<longrightarrow> fromBuffer b = Inl AssertionError) \<and>
   (length b = 8 \<longrightarrow> fromBuffer b = Inr (\<Sum>i<8. unat (b ! i) * 256 ^ i))"
  by (simp add: fromBuffer_value) (simp add: fromBuffer_def)

theorem fromBuffer_eight_bytes_only_witness:
  "fromBuffer [1, 2, 3] = Inl AssertionError \<and>
   fromBuffer [16, 39, 0, 0, 0, 0, 0, 0] = Inr 10000"
  using fromBuffer_eight_bytes_only [of "[1, 2, 3]"]
    fromBuffer_eight_bytes_only [of "[16, 39, 0, 0, 0, 0, 0, 0]"]
  by (simp add: lessThan_nat_numeral lessThan_Suc)

section \<open>Account data\<close>

subsection \<open>Layouts decoded on a buffer\<close>

lemma le_value_append: "le_value (xs @ ys) = le_value xs + 256 ^ length xs * le_value ys"
  by (induction xs) (simp_all add: le_value_def algebra_simps)

lemma le_value_BN_of_bytes: "le_value b = BN_of_bytes (rev b)"
  by (induction b) (simp_all add: le_value_def BN_of_bytes_def)

lemma fromBuffer_le_value: "length b = 8 \<Longrightarrow> fromBuffer b = Inr (le_value b)"
  by (simp add: fromBuffer_def BN_of_hex_bytes le_value_BN_of_bytes)

lemma BN_of_bytes_bound: "BN_of_bytes b < 256 ^ length b"
proof (induction b rule: rev_induct)
  case Nil
  then show ?case by (simp add: BN_of_bytes_def)
next
  case (snoc x xs)
  have "unat x < 256" using unsigned_less [of x] by simp
  with snoc have "BN_of_bytes xs * 256 + unat x < 256 * 256 ^ length xs"
    by simp
  then show ?case by (simp add: BN_of_bytes_snoc)
qed

lemma new_PublicKey_ok:
  assumes "length b \<le> 32"
  shows "new_PublicKey b = Inr (BN_of_bytes b)"
proof -
  have "BN_of_bytes b < 256 ^ length b" by (rule BN_of_bytes_bound)
  also have "(256::nat) ^ length b \<le> 256 ^ 32" using assms by (intro power_increasing) simp_all
  finally have "length (bn_bytes (BN_of_bytes b)) \<le> 32" using bn_bytes_length_le by blast
  then show ?thesis by (simp add: new_PublicKey_def byteLength_def)
qed

lemma length_slice_buffer: "length (slice_buffer b s e) = min (e - s) (length b - s)"
  by (simp add: slice_buffer_def)

lemma slice_buffer_split:
  "s \<le> m \<Longrightarrow> m \<le> e \<Longrightarrow> slice_buffer b s e = slice_buffer b s m @ slice_buffer b m e"
proof -
  assume a: "s \<le> m" "m \<le> e"
  then have "e - s = (m - s) + (e - m)" by simp
  then have "take (e - s) (drop s b) = take (m - s) (drop s b) @ take (e - m) (drop (m - s) (drop s b))"
    by (simp only: take_add)
  with a show ?thesis by (simp add: slice_buffer_def)
qed

lemma state_byte:
  "d \<noteq> [] \<Longrightarrow> le_value (slice_buffer d 0 1) = unat (hd d)"
  by (cases d) (simp_all add: slice_buffer_def le_value_def)

lemma state_byte_is: "take (Suc 0) d = [x] \<longleftrightarrow> d \<noteq> [] \<and> hd d = x"
  by (cases d) simp_all

lemma TokenAccountInfoLayout_decode_short:
  "length d < 81 \<Longrightarrow> struct_decode TokenAccountInfoLayout d 0 = Inl RangeError"
  by (simp add: TokenAccountInfoLayout_def Layout_uint64_def Layout_publicKey_def readUIntLE_def)

lemma TokenAccountInfoLayout_decode_raw:
  "81 \<le> length d \<Longrightarrow> struct_decode TokenAccountInfoLayout d 0 =
     Inr [(''state'', Num (le_value (slice_buffer d 0 1))),
          (''token'', Buf (slice_buffer d 1 33)),
          (''owner'', Buf (slice_buffer d 33 65)),
          (''amount'', Buf (slice_buffer d 65 73)),
          (''sourceOption'', Num (le_value (slice_buffer d 77 81) * 2 ^ 32 + le_value (slice_buffer d 73 77))),
          (''source'', Buf (slice_buffer d 81 113)),
          (''originalAmount'', Buf (slice_buffer d 113 121))]"
  by (simp add: TokenAccountInfoLayout_def Layout_uint64_def Layout_publicKey_def readUIntLE_def)

lemma sourceOption_value:
  "81 \<le> length d \<Longrightarrow>
   le_value (slice_buffer d 77 81) * 2 ^ 32 + le_value (slice_buffer d 73 77) = sourceOption_field d"
  using slice_buffer_split [of 73 77 81 d]
  by (simp add: sourceOption_field_def le_value_append length_slice_buffer)

lemma TokenAccountInfoLayout_decode:
  assumes "81 \<le> length d"
  shows "struct_decode TokenAccountInfoLayout d 0 =
     Inr [(''state'', Num (unat (hd d))),
          (''token'', Buf (token_field d)),
          (''owner'', Buf (owner_field d)),
          (''amount'', Buf (amount_field d)),
          (''sourceOption'', Num (sourceOption_field d)),
          (''source'', Buf (source_field d)),
          (''originalAmount'', Buf (originalAmount_field d))]"
proof -
  from assms have ne: "d \<noteq> []" by auto
  show ?thesis
    unfolding TokenAccountInfoLayout_decode_raw [OF assms] state_byte [OF ne]
      sourceOption_value [OF assms] token_field_def owner_field_def amount_field_def
      source_field_def originalAmount_field_def ..
qed

lemma field_lengths:
  "length (token_field d) \<le> 32" "length (owner_field d) \<le> 32" "length (source_field d) \<le> 32"
  "81 \<le> length d \<Longrightarrow> length (amount_field d) = 8"
  "length (originalAmount_field d) = 8 \<longleftrightarrow> 121 \<le> length d"
  by (auto simp: token_field_def owner_field_def source_field_def amount_field_def
      originalAmount_field_def length_slice_buffer)

lemma accountInfo_decode:
  assumes "getAccountInfo (connection this) account = Inr ai"
  shows "accountInfo this account =
    (let d = AccountInfo.data ai in
     if AccountInfo.owner ai \<noteq> Token.programId this then Inl InvalidTokenAccountOwner
     else if length d < 81 then Inl RangeError
     else if hd d \<noteq> 2 then Inl InvalidTokenAccountData
     else if sourceOption_field d = 0 then
       (if BN_of_bytes (token_field d) \<noteq> Token.token this then Inl InvalidTokenAccountToken
        else Inr \<lparr>TokenAccountInfo.token = BN_of_bytes (token_field d),
                  TokenAccountInfo.owner = BN_of_bytes (owner_field d),
                  amount = le_value (amount_field d),
                  source = None, originalAmount = 0\<rparr>)
     else if length d < 121 then Inl AssertionError
     else if BN_of_bytes (token_field d) \<noteq> Token.token this then Inl InvalidTokenAccountToken
     else Inr \<lparr>TokenAccountInfo.token = BN_of_bytes (token_field d),
               TokenAccountInfo.owner = BN_of_bytes (owner_field d),
               amount = le_value (amount_field d),
               source = Some (BN_of_bytes (source_field d)),
               originalAmount = le_value (originalAmount_field d)\<rparr>)"
proof (cases "length (AccountInfo.data ai) < 81")
  case True
  with assms show ?thesis
    by (simp add: accountInfo_def TokenAccountInfoLayout_decode_short Let_def)
next
  case False
  define d where "d = AccountInfo.data ai"
  from False have len: "81 \<le> length d" by (simp add: d_def)
  have keys: "new_PublicKey (token_field d) = Inr (BN_of_bytes (token_field d))"
    "new_PublicKey (owner_field d) = Inr (BN_of_bytes (owner_field d))"
    "new_PublicKey (source_field d) = Inr (BN_of_bytes (source_field d))"
    by (simp_all add: new_PublicKey_ok field_lengths)
  from len have amount: "fromBuffer (amount_field d) = Inr (le_value (amount_field d))"
    by (simp add: fromBuffer_le_value field_lengths)
  have orig: "fromBuffer (originalAmount_field d) =
     (if length d < 121 then Inl AssertionError else Inr (le_value (originalAmount_field d)))"
  proof (cases "121 \<le> length d")
    case True
    then show ?thesis by (simp add: fromBuffer_le_value field_lengths)
  next
    case False
    then have "length (originalAmount_field d) \<noteq> 8" by (simp add: field_lengths)
    with False show ?thesis by (simp add: fromBuffer_def)
  qed
  have two: "(unat (hd d) = 2) = (hd d = 2)" by (simp add: word_unat_eq_iff)
  from assms len show ?thesis
    unfolding d_def [symmetric] accountInfo_def
    by (simp add: TokenAccountInfoLayout_decode Let_def get_num_def get_buf_def
        keys amount orig two d_def [symmetric])
qed


lemma TokenInfoLayout_decode_short:
  "length d < 10 \<Longrightarrow> struct_decode TokenInfoLayout d 0 = Inl RangeError"
  by (simp add: TokenInfoLayout_def Layout_uint64_def readUIntLE_def)

lemma TokenInfoLayout_decode_raw:
  "10 \<le> length d \<Longrightarrow> struct_decode TokenInfoLayout d 0 =
     Inr [(''state'', Num (le_value (slice_buffer d 0 1))),
          (''supply'', Buf (slice_buffer d 1 9)),
          (''decimals'', Num (le_value (slice_buffer d 9 10)))]"
  by (simp add: TokenInfoLayout_def Layout_uint64_def readUIntLE_def)

lemma TokenInfoLayout_decode:
  assumes "10 \<le> length d"
  shows "struct_decode TokenInfoLayout d 0 =
     Inr [(''state'', Num (unat (hd d))),
          (''supply'', Buf (supply_field d)),
          (''decimals'', Num (decimals_field d))]"
proof -
  from assms have ne: "d \<noteq> []" by auto
  show ?thesis
    unfolding TokenInfoLayout_decode_raw [OF assms] state_byte [OF ne]
      supply_field_def decimals_field_def ..
qed

lemma tokenInfo_decode:
  assumes "getAccountInfo (connection this) (Token.token this) = Inr ai"
  shows "tokenInfo this =
    (let d = AccountInfo.data ai in
     if AccountInfo.owner ai \<noteq> Token.programId this then Inl InvalidTokenOwner
     else if length d < 10 then Inl RangeError
     else if hd d \<noteq> 1 then Inl InvalidTokenAccountData
     else Inr \<lparr>supply = le_value (supply_field d), decimals = decimals_field d\<rparr>)"
proof (cases "length (AccountInfo.data ai) < 10")
  case True
  with assms show ?thesis
    by (simp add: tokenInfo_def TokenInfoLayout_decode_short Let_def)
next
  case False
  define d where "d = AccountInfo.data ai"
  from False have len: "10 \<le> length d" by (simp add: d_def)
  then have "length (supply_field d) = 8" by (simp add: supply_field_def length_slice_buffer)
  then have sup: "fromBuffer (supply_field d) = Inr (le_value (supply_field d))"
    by (rule fromBuffer_le_value)
  have one: "(unat (hd d) = Suc 0) = (hd d = 1)" by (simp add: word_unat_eq_iff)
  from assms len show ?thesis
    unfolding d_def [symmetric] tokenInfo_def
    by (simp add: TokenInfoLayout_decode Let_def get_num_def get_buf_def sup one
        d_def [symmetric])
qed

subsection \<open>The example accounts\<close>

lemma BN_of_bytes_zeros: "BN_of_bytes (replicate n 0 @ bs) = BN_of_bytes bs"
  by (induction n) (simp_all add: BN_of_bytes_def)

lemma example_keys:
  "new_PublicKey example_token_key = Inr 9"
  "new_PublicKey example_owner_key = Inr 3"
  "new_PublicKey example_source_key = Inr 5"
  "BN_of_bytes example_source_key = 5"
  by (simp_all add: new_PublicKey_ok BN_of_bytes_zeros example_token_key_def
      example_owner_key_def example_source_key_def) (simp_all add: BN_of_bytes_def)

lemma example_key_lengths:
  "length example_token_key = 32" "length example_owner_key = 32" "length example_source_key = 32"
  by (simp_all add: example_token_key_def example_owner_key_def example_source_key_def)

lemma example_account_fields:
  "length example_account_data = 121"
  "take (Suc 0) example_account_data = [2]"
  "token_field example_account_data = example_token_key"
  "sourceOption_field example_account_data = 0"
  by (simp_all add: example_account_data_def token_field_def sourceOption_field_def
      slice_buffer_def example_key_lengths le_value_def)

lemma example_delegate_fields:
  "length example_delegate_data = 121"
  "take (Suc 0) example_delegate_data = [2]"
  "token_field example_delegate_data = example_token_key"
  "sourceOption_field example_delegate_data = 1"
  "source_field example_delegate_data = example_source_key"
  "originalAmount_field example_delegate_data = [200, 1, 0, 0, 0, 0, 0, 0]"
  by (simp_all add: example_delegate_data_def token_field_def sourceOption_field_def
      source_field_def originalAmount_field_def
      slice_buffer_def example_key_lengths le_value_def)

lemma example_foreign_fields:
  "length example_foreign_data = 121"
  "take (Suc 0) example_foreign_data = [2]"
  "token_field example_foreign_data = example_source_key"
  by (simp_all add: example_foreign_data_def token_field_def 
      slice_buffer_def example_key_lengths)

lemma example_get:
  "getAccountInfo (connection example_token) 9 = Inr (example_info example_token_data)"
  "getAccountInfo (connection example_token) 100 = Inr (example_info example_account_data)"
  "getAccountInfo (connection example_token) 101 = Inr (example_info example_delegate_data)"
  "getAccountInfo (connection example_token) 102 = Inr (example_info example_foreign_data)"
  "getAccountInfo (connection example_token) 103 = Inr (example_info example_uninitialized_data)"
  "Token.token example_token = 9" "Token.programId example_token = 7"
  "AccountInfo.owner (example_info d) = 7" "AccountInfo.data (example_info d) = d"
  by (simp_all add: example_token_def example_connection_def example_info_def)

subsection \<open>The claims on account data\<close>

text \<open>
  C3. When the \<open>sourceOption\<close> field of the account data is 0, every result of
  \<open>accountInfo\<close> has no source and an original amount of 0, whatever the bytes behind
  the \<open>sourceOption\<close> field are, and \<open>accountInfo\<close> does return a result as soon as the
  owner, the first 81 bytes, the state and the token are right.
\<close>

theorem accountInfo_sourceOption_zero:
  assumes "getAccountInfo (connection this) account = Inr ai"
      and "sourceOption_field (AccountInfo.data ai) = 0"
  shows "(\<forall>info. accountInfo this account = Inr info \<longrightarrow>
            source info = None \<and> originalAmount info = 0) \<and>
         (AccountInfo.owner ai = Token.programId this \<and> 81 \<le> length (AccountInfo.data ai) \<and>
          take 1 (AccountInfo.data ai) = [2] \<and>
          new_PublicKey (token_field (AccountInfo.data ai)) = Inr (Token.token this) \<longrightarrow>
            (\<exists>info. accountInfo this account = Inr info))"
proof (rule conjI)
  show "\<forall>info. accountInfo this account = Inr info \<longrightarrow>
            source info = None \<and> originalAmount info = 0"
    using assms(2) by (auto simp: accountInfo_decode [OF assms(1)] Let_def split: if_splits)
next
  show "AccountInfo.owner ai = Token.programId this \<and> 81 \<le> length (AccountInfo.data ai) \<and>
          take 1 (AccountInfo.data ai) = [2] \<and>
          new_PublicKey (token_field (AccountInfo.data ai)) = Inr (Token.token this) \<longrightarrow>
            (\<exists>info. accountInfo this account = Inr info)"
    using assms(2)
    by (simp add: accountInfo_decode [OF assms(1)] Let_def new_PublicKey_ok field_lengths
        state_byte_is)
qed

theorem accountInfo_sourceOption_zero_witness:
  "\<exists>info. accountInfo example_token 100 = Inr info \<and> source info = None \<and>
      originalAmount info = 0"
  using accountInfo_sourceOption_zero [of example_token 100 "example_info example_account_data"]
  by (auto simp add: example_get example_account_fields example_keys)

text \<open>
  C4. When the token key in the account data is not the token of the Token object,
  \<open>accountInfo\<close> fails with a validation error and returns no record; when nothing else
  is wrong with the account, the error is the token mismatch itself.
\<close>

theorem accountInfo_token_mismatch:
  assumes "getAccountInfo (connection this) account = Inr ai"
      and "new_PublicKey (token_field (AccountInfo.data ai)) \<noteq> Inr (Token.token this)"
  shows "(\<exists>e. accountInfo this account = Inl e \<and> validation_error e) \<and>
         (AccountInfo.owner ai = Token.programId this \<and> 121 \<le> length (AccountInfo.data ai) \<and>
          take 1 (AccountInfo.data ai) = [2] \<longrightarrow>
            accountInfo this account = Inl InvalidTokenAccountToken)"
proof (intro conjI impI)
  from assms(2) have ne: "BN_of_bytes (token_field (AccountInfo.data ai)) \<noteq> Token.token this"
    by (simp add: new_PublicKey_ok field_lengths)
  then show "\<exists>e. accountInfo this account = Inl e \<and> validation_error e"
    by (simp add: accountInfo_decode [OF assms(1)] Let_def)
  assume a: "AccountInfo.owner ai = Token.programId this \<and> 121 \<le> length (AccountInfo.data ai) \<and>
          take 1 (AccountInfo.data ai) = [2]"
  then have "hd (AccountInfo.data ai) = 2" by (simp add: state_byte_is)
  with a ne show "accountInfo this account = Inl InvalidTokenAccountToken"
    by (simp add: accountInfo_decode [OF assms(1)] Let_def)
qed

theorem accountInfo_token_mismatch_witness:
  "accountInfo example_token 102 = Inl InvalidTokenAccountToken"
  using accountInfo_token_mismatch [of example_token 102 "example_info example_foreign_data"]
  by (auto simp add: example_get example_foreign_fields example_keys)

text \<open>
  C5. \<open>tokenInfo\<close> fails whenever the state byte of the token data is not 1, and
  \<open>accountInfo\<close> fails whenever the state byte of the account data is not 2; both fail
  with a validation error and return no record.
\<close>

theorem decode_state_mismatch:
  "(getAccountInfo (connection this) (Token.token this) = Inr ti \<and>
    take 1 (AccountInfo.data ti) \<noteq> [1] \<longrightarrow>
      (\<exists>e. tokenInfo this = Inl e \<and> validation_error e)) \<and>
   (getAccountInfo (connection this) account = Inr ai \<and>
    take 1 (AccountInfo.data ai) \<noteq> [2] \<longrightarrow>
      (\<exists>e. accountInfo this account = Inl e \<and> validation_error e))"
proof (intro conjI impI)
  assume a: "getAccountInfo (connection this) (Token.token this) = Inr ti \<and>
    take 1 (AccountInfo.data ti) \<noteq> [1]"
  show "\<exists>e. tokenInfo this = Inl e \<and> validation_error e"
  proof (cases "AccountInfo.data ti = []")
    case True
    with a show ?thesis by (simp add: tokenInfo_decode Let_def)
  next
    case False
    with a have "hd (AccountInfo.data ti) \<noteq> 1" by (simp add: state_byte_is)
    with a show ?thesis by (simp add: tokenInfo_decode Let_def)
  qed
next
  assume a: "getAccountInfo (connection this) account = Inr ai \<and>
    take 1 (AccountInfo.data ai) \<noteq> [2]"
  show "\<exists>e. accountInfo this account = Inl e \<and> validation_error e"
  proof (cases "AccountInfo.data ai = []")
    case True
    with a show ?thesis by (simp add: accountInfo_decode Let_def)
  next
    case False
    with a have "hd (AccountInfo.data ai) \<noteq> 2" by (simp add: state_byte_is)
    with a show ?thesis by (simp add: accountInfo_decode Let_def)
  qed
qed

theorem decode_state_mismatch_witness:
  "(\<exists>e. tokenInfo (example_token\<lparr>Token.token := 103\<rparr>) = Inl e) \<and>
   (\<exists>e. accountInfo example_token 103 = Inl e)"
  using decode_state_mismatch [of "example_token\<lparr>Token.token := 103\<rparr>"
      "example_info example_uninitialized_data" 103 "example_info example_uninitialized_data"]
    decode_state_mismatch [of example_token "example_info example_token_data" 103
      "example_info example_uninitialized_data"]
  by (auto simp add: example_token_def example_connection_def example_info_def
      example_uninitialized_data_def)

text \<open>
  C6. When the \<open>sourceOption\<close> field of the account data is not 0, every result of
  \<open>accountInfo\<close> has as its source the public key of the 32 bytes at the source offset
  and as its original amount the amount of the 8 bytes at the original amount offset,
  and \<open>accountInfo\<close> does return a result as soon as the owner, the 121 bytes, the state
  and the token are right.
\<close>

theorem accountInfo_sourceOption_nonzero:
  assumes "getAccountInfo (connection this) account = Inr ai"
      and "sourceOption_field (AccountInfo.data ai) \<noteq> 0"
  shows "(\<forall>info. accountInfo this account = Inr info \<longrightarrow>
            length (source_field (AccountInfo.data ai)) = 32 \<and>
            new_PublicKey (source_field (AccountInfo.data ai)) = Inr (BN_of_bytes (source_field (AccountInfo.data ai))) \<and>
            source info = Some (BN_of_bytes (source_field (AccountInfo.data ai))) \<and>
            length (originalAmount_field (AccountInfo.data ai)) = 8 \<and>
            originalAmount info = le_value (originalAmount_field (AccountInfo.data ai))) \<and>
         (AccountInfo.owner ai = Token.programId this \<and> 121 \<le> length (AccountInfo.data ai) \<and>
          take 1 (AccountInfo.data ai) = [2] \<and>
          new_PublicKey (token_field (AccountInfo.data ai)) = Inr (Token.token this) \<longrightarrow>
            (\<exists>info. accountInfo this account = Inr info))"
proof (intro conjI allI impI)
  fix info assume r: "accountInfo this account = Inr info"
  with assms have len: "121 \<le> length (AccountInfo.data ai)"
    by (auto simp: accountInfo_decode [OF assms(1)] Let_def split: if_splits)
  then show "length (source_field (AccountInfo.data ai)) = 32"
    by (simp add: source_field_def length_slice_buffer)
  show "new_PublicKey (source_field (AccountInfo.data ai)) = Inr (BN_of_bytes (source_field (AccountInfo.data ai)))"
    by (simp add: new_PublicKey_ok field_lengths)
  from r assms show "source info = Some (BN_of_bytes (source_field (AccountInfo.data ai)))"
    by (auto simp: accountInfo_decode [OF assms(1)] Let_def split: if_splits)
  from len show "length (originalAmount_field (AccountInfo.data ai)) = 8"
    by (simp add: field_lengths)
  from r assms show "originalAmount info = le_value (originalAmount_field (AccountInfo.data ai))"
    by (auto simp: accountInfo_decode [OF assms(1)] Let_def split: if_splits)
next
  assume a: "AccountInfo.owner ai = Token.programId this \<and> 121 \<le> length (AccountInfo.data ai) \<and>
          take 1 (AccountInfo.data ai) = [2] \<and>
          new_PublicKey (token_field (AccountInfo.data ai)) = Inr (Token.token this)"
  from a have "hd (AccountInfo.data ai) = 2" by (simp add: state_byte_is)
  with a assms(2) show "\<exists>info. accountInfo this account = Inr info"
    by (simp add: accountInfo_decode [OF assms(1)] Let_def new_PublicKey_ok field_lengths)
qed

theorem accountInfo_sourceOption_nonzero_witness:
  "\<exists>info. accountInfo example_token 101 = Inr info \<and> source info = Some 5 \<and>
      originalAmount info = 456"
  using accountInfo_sourceOption_nonzero [of example_token 101 "example_info example_delegate_data"]
  by (auto simp add: example_get example_delegate_fields example_keys le_value_def)

section \<open>Instructions\<close>

subsection \<open>Payload bytes\<close>

lemma length_le_bytes: "length (le_bytes n v) = n"
  by (simp add: le_bytes_def)

lemma le_bytes_nth: "i < n \<Longrightarrow> le_bytes n v ! i = word_of_nat (v div 256 ^ i mod 256)"
  by (simp add: le_bytes_def)

lemma toBuffer_le_bytes:
  assumes "v < 2 ^ 64"
  shows "toBuffer v = Inr (le_bytes 8 v)"
proof -
  from assms have v: "v < 256 ^ 8" by simp
  then have len: "length (bn_bytes v) \<le> 8" using bn_bytes_length_le [of v 8] by blast
  have "bn_bytes v @ replicate (8 - length (bn_bytes v)) 0 = le_bytes 8 v"
  proof (rule nth_equalityI)
    from len show "length (bn_bytes v @ replicate (8 - length (bn_bytes v)) 0) = length (le_bytes 8 v)"
      by (simp add: length_le_bytes)
  next
    fix i assume "i < length (bn_bytes v @ replicate (8 - length (bn_bytes v)) 0)"
    with len have i: "i < 8" by simp
    from le_digits_nth [OF v i] i
    show "(bn_bytes v @ replicate (8 - length (bn_bytes v)) 0) ! i = le_bytes 8 v ! i"
      by (simp add: le_bytes_def)
  qed
  with toBuffer_small [OF assms] show ?thesis by simp
qed

lemma le_bytes_halves:
  "le_bytes 4 (v - v div 2 ^ 32 * 2 ^ 32) @ le_bytes 4 (v div 2 ^ 32) = le_bytes 8 v"
proof (rule nth_equalityI)
  show "length (le_bytes 4 (v - v div 2 ^ 32 * 2 ^ 32) @ le_bytes 4 (v div 2 ^ 32)) = length (le_bytes 8 v)"
    by (simp add: length_le_bytes)
next
  fix i assume "i < length (le_bytes 4 (v - v div 2 ^ 32 * 2 ^ 32) @ le_bytes 4 (v div 2 ^ 32))"
  then have i: "i < 8" by (simp add: length_le_bytes)
  have lo: "v - v div 2 ^ 32 * 2 ^ 32 = v mod 2 ^ 32"
    by (simp add: minus_div_mult_eq_mod)
  show "(le_bytes 4 (v - v div 2 ^ 32 * 2 ^ 32) @ le_bytes 4 (v div 2 ^ 32)) ! i = le_bytes 8 v ! i"
  proof (cases "i < 4")
    case True
    then have p: "(2::nat) ^ 32 = 256 ^ i * 256 ^ (4 - i)"
      by (simp add: power_add [symmetric])
    have "v mod (256 ^ i * 256 ^ (4 - i)) div 256 ^ i = v div 256 ^ i mod 256 ^ (4 - i)"
      using mod_mult2_eq [of v "256 ^ i" "256 ^ (4 - i)"] by simp
    moreover from True have "(256::nat) dvd 256 ^ (4 - i)" by (intro dvd_power) simp
    then have "v div 256 ^ i mod 256 ^ (4 - i) mod 256 = v div 256 ^ i mod 256"
      by (rule mod_mod_cancel)
    ultimately have "v mod 2 ^ 32 div 256 ^ i mod 256 = v div 256 ^ i mod 256"
      unfolding p by simp
    with True i show ?thesis
      unfolding lo by (simp add: nth_append length_le_bytes le_bytes_nth)
  next
    case False
    from False have "i = 4 + (i - 4)" by simp
    then have "(256::nat) ^ i = 256 ^ 4 * 256 ^ (i - 4)" by (metis power_add)
    then have "(2::nat) ^ 32 * 256 ^ (i - 4) = 256 ^ i" by simp
    then have "v div 2 ^ 32 div 256 ^ (i - 4) = v div 256 ^ i"
      by (simp add: div_mult2_eq [symmetric])
    moreover from False i have "i - 4 < 4" by simp
    ultimately show ?thesis
      using False i by (simp add: nth_append length_le_bytes le_bytes_nth)
  qed
qed


lemma le_bytes_one: "le_bytes (Suc 0) v = [word_of_nat (v mod 256)]"
  by (simp add: le_bytes_def)

lemma tag_payload:
  assumes "k < 256"
  shows "struct_encode [(''instruction'', U8)] [(''instruction'', Num k)]
           (alloc (struct_span [(''instruction'', U8)])) = Inr ([word_of_nat k], 1)"
  using assms
  by (simp add: struct_encode_def struct_span_def alloc_def writeUIntLE_def write_at_def
      le_bytes_def)

lemma amount_payload:
  assumes "k < 256" "length ab = 8"
  shows "struct_encode [(''instruction'', U8), (''amount'', Layout_uint64)]
           [(''instruction'', Num k), (''amount'', Buf ab)]
           (alloc (struct_span [(''instruction'', U8), (''amount'', Layout_uint64)])) =
         Inr (word_of_nat k # ab, 9)"
  using assms
  by (simp add: struct_encode_def struct_span_def alloc_def writeUIntLE_def write_at_def
      le_bytes_def Layout_uint64_def)

lemma amount_payload_wrong_length:
  assumes "k < 256" "length ab \<noteq> 8"
  shows "struct_encode [(''instruction'', U8), (''amount'', Layout_uint64)]
           [(''instruction'', Num k), (''amount'', Buf ab)]
           (alloc (struct_span [(''instruction'', U8), (''amount'', Layout_uint64)])) =
         Inl TypeError"
  using assms
  by (simp add: struct_encode_def struct_span_def alloc_def writeUIntLE_def write_at_def
      le_bytes_def Layout_uint64_def)

lemma length_toArray: "length (toArray v) = max 1 (length (bn_bytes v))"
  by (simp add: toArray_def byteLength_def Let_def)

lemma length_toArray_eight: "length (toArray v) = 8 \<longleftrightarrow> 2 ^ 56 \<le> v \<and> v < 2 ^ 64"
proof -
  have a: "length (bn_bytes v) \<le> 8 \<longleftrightarrow> v < 2 ^ 64"
    using bn_bytes_length_le [of v 8] by simp
  have b: "length (bn_bytes v) \<le> 7 \<longleftrightarrow> v < 2 ^ 56"
    using bn_bytes_length_le [of v 7] by simp
  have "length (toArray v) = 8 \<longleftrightarrow> length (bn_bytes v) \<le> 8 \<and> \<not> length (bn_bytes v) \<le> 7"
    unfolding length_toArray by arith
  with a b show ?thesis by auto
qed

lemma toArray_big_endian:
  assumes "2 ^ 56 \<le> v" "v < 2 ^ 64"
  shows "toArray v = rev (le_bytes 8 v)"
proof -
  from assms have "length (toArray v) = 8" by (simp only: length_toArray_eight)
  moreover from assms have "length (bn_bytes v) \<noteq> 0"
    by (subst bn_bytes.simps) auto
  ultimately have len: "length (bn_bytes v) = 8" unfolding length_toArray by simp
  from toBuffer_small [OF assms(2)] toBuffer_le_bytes [OF assms(2)] len
  have "bn_bytes v = le_bytes 8 v" by simp
  with len show ?thesis by (simp add: toArray_def byteLength_def Let_def)
qed

lemma toBuffer_eq:
  "toBuffer v = (if v < 2 ^ 64 then Inr (le_bytes 8 v) else Inl AssertionError)"
  by (simp add: toBuffer_le_bytes toBuffer_large)

lemma approveInstruction_eq:
  "approveInstruction this ownerKey account delegate amt =
     (case ebind (new_TokenAmount amt) toBuffer_method of
        Inl e \<Rightarrow> Inl e
      | Inr ab \<Rightarrow>
          if length ab = 8 then
            Inr \<lparr>keys =
                   [\<lparr>pubkey = ownerKey, isSigner = True, isWritable = False\<rparr>,
                    \<lparr>pubkey = account, isSigner = False, isWritable = True\<rparr>,
                    \<lparr>pubkey = delegate, isSigner = False, isWritable = True\<rparr>],
                 TransactionInstruction.programId = Token.programId this,
                 TransactionInstruction.data = 3 # ab\<rparr>
          else Inl TypeError)"
  using amount_payload [of 3] amount_payload_wrong_length [of 3]
  by (simp add: approveInstruction_def Let_def split: sum.split)

lemma setOwnerInstruction_eq:
  "setOwnerInstruction this ownerKey account newOwner =
     Inr \<lparr>keys =
            [\<lparr>pubkey = ownerKey, isSigner = True, isWritable = False\<rparr>,
             \<lparr>pubkey = account, isSigner = False, isWritable = True\<rparr>,
             \<lparr>pubkey = newOwner, isSigner = False, isWritable = True\<rparr>],
          TransactionInstruction.programId = Token.programId this,
          TransactionInstruction.data = [4]\<rparr>"
  using tag_payload [of 4]
  by (simp add: setOwnerInstruction_def Let_def)

lemma newAccount_data_eq: "newAccount_data = Inr [1]"
  using tag_payload [of 1] by (simp add: newAccount_data_def Let_def)

lemma transferInstruction_eq:
  "transferInstruction this ownerKey src dst amt =
     (case accountInfo this src of
        Inl e \<Rightarrow> Inl e
      | Inr info \<Rightarrow>
          if ownerKey \<noteq> TokenAccountInfo.owner info then Inl AccountOwnerMismatch
          else
            (case ebind (new_TokenAmount amt) toBuffer_method of
               Inl e \<Rightarrow> Inl e
             | Inr ab \<Rightarrow>
                 if length ab = 8 then
                   Inr \<lparr>keys =
                          [\<lparr>pubkey = ownerKey, isSigner = True, isWritable = False\<rparr>,
                           \<lparr>pubkey = src, isSigner = False, isWritable = True\<rparr>,
                           \<lparr>pubkey = dst, isSigner = False, isWritable = True\<rparr>] @
                          (case source info of
                             None \<Rightarrow> []
                           | Some s \<Rightarrow> [\<lparr>pubkey = s, isSigner = False, isWritable = True\<rparr>]),
                        TransactionInstruction.programId = Token.programId this,
                        TransactionInstruction.data = 2 # ab\<rparr>
                 else Inl TypeError))"
  using amount_payload [of 2] amount_payload_wrong_length [of 2]
  by (simp add: transferInstruction_def Let_def split: sum.split option.split)

lemma createNewToken_data_eq:
  "createNewToken_data sp dv =
     (case toBuffer_method sp of
        Inl e \<Rightarrow> Inl e
      | Inr sb \<Rightarrow>
          if length sb = 8 then
            if dv < 2 ^ 64 then Inr (0 # sb @ le_bytes 8 dv) else Inl RangeError
          else Inl TypeError)"
proof (cases "toBuffer_method sp")
  case (Inl e)
  then show ?thesis by (simp add: createNewToken_data_def Let_def)
next
  case (Inr sb)
  have lo: "dv - dv div 2 ^ 32 * 2 ^ 32 < 256 ^ 4"
    by (simp add: minus_div_mult_eq_mod)
  have hi: "dv div 2 ^ 32 < 256 ^ 4 \<longleftrightarrow> dv < 2 ^ 64"
    by (simp add: div_less_iff_less_mult)
  show ?thesis
  proof (cases "length sb = 8")
    case False
    with Inr show ?thesis
      by (simp add: createNewToken_data_def Let_def struct_encode_def alloc_def
          writeUIntLE_def Layout_uint64_def write_at_def)
  next
    case len: True
    show ?thesis
    proof (cases "dv < 2 ^ 64")
      case False
      with Inr len lo hi show ?thesis
        by (simp add: createNewToken_data_def Let_def struct_encode_def
            alloc_def writeUIntLE_def Layout_uint64_def length_le_bytes write_at_def)
    next
      case dv: True
      have "0 # sb @ le_bytes 4 (dv - dv div 2 ^ 32 * 2 ^ 32) @ le_bytes 4 (dv div 2 ^ 32) =
        0 # sb @ le_bytes 8 dv"
        by (simp only: le_bytes_halves)
      with Inr len dv lo hi show ?thesis
        by (simp add: createNewToken_data_def Let_def struct_encode_def
            alloc_def writeUIntLE_def Layout_uint64_def length_le_bytes write_at_def
            slice_buffer_def le_bytes_one)
    qed
  qed
qed

lemma le_bytes_zero: "le_bytes n 0 = replicate n 0"
  by (simp add: le_bytes_def map_replicate_const)

lemma example_account_more:
  "hd example_account_data = 2"
  "owner_field example_account_data = example_owner_key"
  "amount_field example_account_data = [16, 39, 0, 0, 0, 0, 0, 0]"
  by (simp_all add: example_account_data_def owner_field_def amount_field_def
      slice_buffer_def example_key_lengths)

lemma example_accountInfo:
  "accountInfo example_token 100 =
     Inr \<lparr>TokenAccountInfo.token = 9, TokenAccountInfo.owner = 3, amount = 10000,
          source = None, originalAmount = 0\<rparr>"
  using example_keys
  by (simp add: accountInfo_decode [OF example_get(2)] example_get example_account_fields
      example_account_more new_PublicKey_ok example_key_lengths state_byte_is le_value_def Let_def)

text \<open>
  The payloads by the kind of the amount argument. A number and an instance of
  TokenAmount give the tag and the 8 little-endian bytes of the caller's amount. A plain
  bn.js number gives an instruction only when its magnitude fills 8 bytes, and then the
  tag is followed by those bytes in big-endian order.
\<close>

lemma instruction_payloads_by_argument:
  "(sv < 2 ^ 64 \<and> dv < 2 ^ 64 \<longrightarrow>
      createNewToken_data (TokenAmountObj sv) dv =
        Inr (instruction_tag NewToken # le_bytes 8 sv @ le_bytes 8 dv)) \<and>
   (dv < 2 ^ 64 \<longrightarrow>
      createNewToken_data (PlainBN sv) dv =
        (if 2 ^ 56 \<le> sv \<and> sv < 2 ^ 64
         then Inr (instruction_tag NewToken # rev (le_bytes 8 sv) @ le_bytes 8 dv)
         else Inl TypeError)) \<and>
   newAccount_data = Inr [instruction_tag NewTokenAccount] \<and>
   (\<forall>ins. approveInstruction this ownerKey account delegate (JsNumber n) = Inr ins \<longrightarrow>
      TransactionInstruction.data ins = instruction_tag Approve # le_bytes 8 n) \<and>
   (n < 2 ^ 53 \<longrightarrow>
      (\<exists>ins. approveInstruction this ownerKey account delegate (JsNumber n) = Inr ins)) \<and>
   (\<forall>ins. approveInstruction this ownerKey account delegate (AmountObject (TokenAmountObj n)) =
        Inr ins \<longrightarrow>
      TransactionInstruction.data ins = instruction_tag Approve # le_bytes 8 n) \<and>
   (n < 2 ^ 64 \<longrightarrow>
      (\<exists>ins. approveInstruction this ownerKey account delegate (AmountObject (TokenAmountObj n)) =
         Inr ins)) \<and>
   (\<forall>ins. approveInstruction this ownerKey account delegate (AmountObject (PlainBN n)) =
        Inr ins \<longrightarrow>
      2 ^ 56 \<le> n \<and> n < 2 ^ 64 \<and>
      TransactionInstruction.data ins = instruction_tag Approve # rev (le_bytes 8 n)) \<and>
   (\<forall>ins. transferInstruction this ownerKey src dst (JsNumber n) = Inr ins \<longrightarrow>
      TransactionInstruction.data ins = instruction_tag Transfer # le_bytes 8 n) \<and>
   (\<forall>ins. transferInstruction this ownerKey src dst (AmountObject (TokenAmountObj n)) =
        Inr ins \<longrightarrow>
      TransactionInstruction.data ins = instruction_tag Transfer # le_bytes 8 n) \<and>
   (\<forall>info. accountInfo this src = Inr info \<and> ownerKey = TokenAccountInfo.owner info \<and>
      n < 2 ^ 64 \<longrightarrow>
      (\<exists>ins. transferInstruction this ownerKey src dst (AmountObject (TokenAmountObj n)) =
         Inr ins)) \<and>
   (\<forall>ins. transferInstruction this ownerKey src dst (AmountObject (PlainBN n)) = Inr ins \<longrightarrow>
      2 ^ 56 \<le> n \<and> n < 2 ^ 64 \<and>
      TransactionInstruction.data ins = instruction_tag Transfer # rev (le_bytes 8 n)) \<and>
   (\<exists>ins. setOwnerInstruction this ownerKey account newOwner = Inr ins \<and>
      TransactionInstruction.data ins = [instruction_tag SetOwner])"
proof -
  have be: "length (toArray n) = 8 \<Longrightarrow> toArray n = rev (le_bytes 8 n)" for n
    by (simp add: length_toArray_eight toArray_big_endian)
  have "sv < 2 ^ 64 \<and> dv < 2 ^ 64 \<longrightarrow>
      createNewToken_data (TokenAmountObj sv) dv =
        Inr (instruction_tag NewToken # le_bytes 8 sv @ le_bytes 8 dv)"
    by (simp add: createNewToken_data_eq toBuffer_eq length_le_bytes)
  moreover have "dv < 2 ^ 64 \<longrightarrow>
      createNewToken_data (PlainBN sv) dv =
        (if 2 ^ 56 \<le> sv \<and> sv < 2 ^ 64
         then Inr (instruction_tag NewToken # rev (le_bytes 8 sv) @ le_bytes 8 dv)
         else Inl TypeError)"
    using be [of sv]
    by (simp add: createNewToken_data_eq BN_toBuffer_def length_toArray_eight)
  moreover have "newAccount_data = Inr [instruction_tag NewTokenAccount]"
    by (simp add: newAccount_data_eq)
  moreover have "\<forall>ins. approveInstruction this ownerKey account delegate (JsNumber n) = Inr ins \<longrightarrow>
      TransactionInstruction.data ins = instruction_tag Approve # le_bytes 8 n"
    by (auto simp: approveInstruction_eq toBuffer_eq BN_toBuffer_def split: if_splits)
  moreover have "n < 2 ^ 53 \<longrightarrow>
      (\<exists>ins. approveInstruction this ownerKey account delegate (JsNumber n) = Inr ins)"
    by (simp add: approveInstruction_eq toBuffer_eq BN_toBuffer_def length_le_bytes)
  moreover have "\<forall>ins. approveInstruction this ownerKey account delegate
        (AmountObject (TokenAmountObj n)) = Inr ins \<longrightarrow>
      TransactionInstruction.data ins = instruction_tag Approve # le_bytes 8 n"
    by (auto simp: approveInstruction_eq toBuffer_eq BN_toBuffer_def split: if_splits)
  moreover have "n < 2 ^ 64 \<longrightarrow>
      (\<exists>ins. approveInstruction this ownerKey account delegate (AmountObject (TokenAmountObj n)) =
         Inr ins)"
    by (simp add: approveInstruction_eq toBuffer_eq BN_toBuffer_def length_le_bytes)
  moreover have "\<forall>ins. approveInstruction this ownerKey account delegate
        (AmountObject (PlainBN n)) = Inr ins \<longrightarrow>
      2 ^ 56 \<le> n \<and> n < 2 ^ 64 \<and>
      TransactionInstruction.data ins = instruction_tag Approve # rev (le_bytes 8 n)"
    using be [of n]
    by (auto simp: approveInstruction_eq toBuffer_eq BN_toBuffer_def length_toArray_eight split: if_splits)
  moreover have "\<forall>ins. transferInstruction this ownerKey src dst (JsNumber n) = Inr ins \<longrightarrow>
      TransactionInstruction.data ins = instruction_tag Transfer # le_bytes 8 n"
    by (auto simp: transferInstruction_eq toBuffer_eq BN_toBuffer_def split: sum.splits if_splits)
  moreover have "\<forall>ins. transferInstruction this ownerKey src dst
        (AmountObject (TokenAmountObj n)) = Inr ins \<longrightarrow>
      TransactionInstruction.data ins = instruction_tag Transfer # le_bytes 8 n"
    by (auto simp: transferInstruction_eq toBuffer_eq BN_toBuffer_def split: sum.splits if_splits)
  moreover have "\<forall>info. accountInfo this src = Inr info \<and>
      ownerKey = TokenAccountInfo.owner info \<and> n < 2 ^ 64 \<longrightarrow>
      (\<exists>ins. transferInstruction this ownerKey src dst (AmountObject (TokenAmountObj n)) =
         Inr ins)"
    by (simp add: transferInstruction_eq toBuffer_eq BN_toBuffer_def length_le_bytes)
  moreover have "\<forall>ins. transferInstruction this ownerKey src dst
        (AmountObject (PlainBN n)) = Inr ins \<longrightarrow>
      2 ^ 56 \<le> n \<and> n < 2 ^ 64 \<and>
      TransactionInstruction.data ins = instruction_tag Transfer # rev (le_bytes 8 n)"
    using be [of n]
    by (auto simp: transferInstruction_eq toBuffer_eq BN_toBuffer_def length_toArray_eight
        split: sum.splits if_splits)
  moreover have "\<exists>ins. setOwnerInstruction this ownerKey account newOwner = Inr ins \<and>
      TransactionInstruction.data ins = [instruction_tag SetOwner]"
    by (simp add: setOwnerInstruction_eq)
  ultimately show ?thesis by blast
qed

subsection \<open>The claims on instructions\<close>

text \<open>
  C8. Every payload is to be the tag byte of its kind followed by its fields, the amount
  of a Transfer or an Approve in its 8 bytes. The code does so for a number and for an
  instance of TokenAmount, and does not for the plain bn.js number that \<open>accountInfo\<close>
  and \<open>tokenInfo\<close> return as an amount. Given the plain number \<open>2^56\<close>, the Approve and
  Transfer payloads carry the bytes \<open>1, 0, 0, 0, 0, 0, 0, 0\<close>, which \<open>fromBuffer\<close> reads
  as 1, where the instance of TokenAmount of the same value gives
  \<open>0, 0, 0, 0, 0, 0, 0, 1\<close>. Given the plain number 10000 no instruction is built: the
  two bytes of bn.js are refused by the 8-byte field, for Transfer, Approve and NewToken
  alike.
\<close>

theorem instruction_payload_of_plain_BN:
  "approveInstruction example_token 3 100 101 (AmountObject (PlainBN (2 ^ 56))) =
     Inr \<lparr>keys =
            [\<lparr>pubkey = 3, isSigner = True, isWritable = False\<rparr>,
             \<lparr>pubkey = 100, isSigner = False, isWritable = True\<rparr>,
             \<lparr>pubkey = 101, isSigner = False, isWritable = True\<rparr>],
          TransactionInstruction.programId = 7,
          TransactionInstruction.data = [3, 1, 0, 0, 0, 0, 0, 0, 0]\<rparr> \<and>
   approveInstruction example_token 3 100 101 (AmountObject (TokenAmountObj (2 ^ 56))) =
     Inr \<lparr>keys =
            [\<lparr>pubkey = 3, isSigner = True, isWritable = False\<rparr>,
             \<lparr>pubkey = 100, isSigner = False, isWritable = True\<rparr>,
             \<lparr>pubkey = 101, isSigner = False, isWritable = True\<rparr>],
          TransactionInstruction.programId = 7,
          TransactionInstruction.data = [3, 0, 0, 0, 0, 0, 0, 0, 1]\<rparr> \<and>
   transferInstruction example_token 3 100 101 (AmountObject (PlainBN (2 ^ 56))) =
     Inr \<lparr>keys =
            [\<lparr>pubkey = 3, isSigner = True, isWritable = False\<rparr>,
             \<lparr>pubkey = 100, isSigner = False, isWritable = True\<rparr>,
             \<lparr>pubkey = 101, isSigner = False, isWritable = True\<rparr>],
          TransactionInstruction.programId = 7,
          TransactionInstruction.data = [2, 1, 0, 0, 0, 0, 0, 0, 0]\<rparr> \<and>
   fromBuffer [1, 0, 0, 0, 0, 0, 0, 0] = Inr 1 \<and>
   fromBuffer [0, 0, 0, 0, 0, 0, 0, 1] = Inr (2 ^ 56) \<and>
   approveInstruction example_token 3 100 101 (AmountObject (PlainBN 10000)) = Inl TypeError \<and>
   transferInstruction example_token 3 100 101 (AmountObject (PlainBN 10000)) = Inl TypeError \<and>
   createNewToken_data (PlainBN 10000) 2 = Inl TypeError"
proof -
  have b: "le_bytes 8 72057594037927936 = [0, 0, 0, 0, 0, 0, 0, 1]"
    by (simp add: le_bytes_def upt_rec)
  have big: "toArray 72057594037927936 = [1, 0, 0, 0, 0, 0, 0, 0]"
    using toArray_big_endian [of 72057594037927936] by (simp add: b)
  have small: "length (toArray 10000) \<noteq> 8"
    by (simp add: length_toArray_eight)
  have f: "fromBuffer [1, 0, 0, 0, 0, 0, 0, 0] = Inr 1"
    "fromBuffer [0, 0, 0, 0, 0, 0, 0, 1] = Inr 72057594037927936"
    by (simp_all add: fromBuffer_le_value le_value_def)
  show ?thesis
    by (simp add: approveInstruction_eq transferInstruction_eq createNewToken_data_eq
        toBuffer_eq BN_toBuffer_def big small b f example_accountInfo example_get)
qed

text \<open>
  C10. \<open>revoke\<close> is \<open>approve\<close> with the amount 0, \<open>revokeInstruction\<close> is
  \<open>approveInstruction\<close> with the amount 0, and the instruction it builds is the Approve
  tag followed by eight zero bytes with the key list of an approval: revocation has no
  encoding of its own.
\<close>

theorem revoke_is_approve_zero:
  "revoke sendAndConfirmTransaction this ownerAccount account delegate =
     approve sendAndConfirmTransaction this ownerAccount account delegate (JsNumber 0) \<and>
   revokeInstruction this ownerKey account delegate =
     approveInstruction this ownerKey account delegate (JsNumber 0) \<and>
   revokeInstruction this ownerKey account delegate =
     Inr \<lparr>keys =
            [\<lparr>pubkey = ownerKey, isSigner = True, isWritable = False\<rparr>,
             \<lparr>pubkey = account, isSigner = False, isWritable = True\<rparr>,
             \<lparr>pubkey = delegate, isSigner = False, isWritable = True\<rparr>],
          TransactionInstruction.programId = Token.programId this,
          TransactionInstruction.data = instruction_tag Approve # replicate 8 0\<rparr>"
  by (simp add: revoke_def revokeInstruction_def approveInstruction_eq toBuffer_eq
      length_le_bytes le_bytes_zero)

theorem revoke_is_approve_zero_witness:
  "revoke (\<lambda>title c transaction signers. Inr ''signature'') example_token \<lparr>publicKey = 3\<rparr>
     100 101 = Inr () \<and>
   revokeInstruction example_token 3 100 101 =
     Inr \<lparr>keys =
            [\<lparr>pubkey = 3, isSigner = True, isWritable = False\<rparr>,
             \<lparr>pubkey = 100, isSigner = False, isWritable = True\<rparr>,
             \<lparr>pubkey = 101, isSigner = False, isWritable = True\<rparr>],
          TransactionInstruction.programId = 7,
          TransactionInstruction.data = [3, 0, 0, 0, 0, 0, 0, 0, 0]\<rparr>"
proof -
  have z: "replicate 8 (0 :: byte) = [0, 0, 0, 0, 0, 0, 0, 0]"
    by (simp add: numeral_eq_Suc)
  from revoke_is_approve_zero [of "\<lambda>title c transaction signers. Inr ''signature''"
      example_token "\<lparr>publicKey = 3\<rparr>" 100 101 3]
  show ?thesis
    by (simp add: z example_get approve_def approveInstruction_eq toBuffer_eq
        length_le_bytes le_bytes_zero)
qed

section \<open>The confirmation loop\<close>

lemma pending_timeout:
  "budget < clock (i + d) \<Longrightarrow> \<forall>j\<le>i + d. query j = None \<Longrightarrow>
   pending query clock budget s i = Some TimedOut"
proof (induction d arbitrary: i)
  case 0
  then show ?case by (subst pending.simps) simp
next
  case (Suc d)
  from Suc.prems have "pending query clock budget s (Suc i) = Some TimedOut"
    by (intro Suc.IH) simp_all
  with Suc.prems show ?case by (subst pending.simps) simp
qed

text \<open>
  C9. When the transaction has been submitted and every status query is null up to a
  poll at which the clock is over the budget, the outcome of the operation is
  \<open>TimedOut\<close>, which is neither a \<open>Confirmed\<close> nor a \<open>Failed\<close> outcome.
\<close>

theorem confirmation_timeout:
  assumes "submitting send 0 retries = Some s"
      and "budget < clock n"
      and "\<forall>i\<le>n. query i = None"
  shows "sendAndConfirm send retries query clock budget = Some TimedOut \<and>
         (\<forall>s'. TimedOut \<noteq> Confirmed s') \<and> (\<forall>f. TimedOut \<noteq> Failed f)"
  using assms pending_timeout [of budget clock 0 n query s]
  by (simp add: sendAndConfirm_def)

theorem confirmation_timeout_witness:
  "sendAndConfirm (\<lambda>k. if k = 0 then None else Some ''signature'') 2 (\<lambda>i. None)
     (\<lambda>i. 500 * i) 30000 = Some TimedOut"
proof -
  have "submitting (\<lambda>k. if k = 0 then None else Some ''signature'') 0 2 = Some ''signature''"
    by (simp add: numeral_2_eq_2)
  from confirmation_timeout [OF this, of 30000 "\<lambda>i. 500 * i" 61 "\<lambda>i. None"]
  show ?thesis by simp
qed

end
